theory Spec2Isabelle
  imports Main "HOL-Library.AList" "HOL-Library.Sublist"
begin

section \<open>Values shared by the agent and the transit client\<close>

text \<open>
  Python \<open>str\<close> is modelled by \<open>string\<close>. Text outside ASCII (the Chinese messages of
  the source) is written as its UTF-8 bytes. A JSON value, as \<open>json.loads\<close> yields it and
  as a preference value, a tool argument or a tool result holds it, is a \<open>jv\<close>; a Python
  dict is an association list in insertion order, with at most one entry for a key.
\<close>

datatype jv =
    JNull
  | JBool bool
  | JInt int
  | JStr string
  | JList "jv list"
  | JObj "(string \<times> jv) list"

text \<open>\<open>k in d\<close> for a dict \<open>d\<close>.\<close>

definition has_key :: "('k \<times> 'v) list \<Rightarrow> 'k \<Rightarrow> bool" where
  "has_key d k = (k \<in> set (map fst d))"

text \<open>\<open>str(n)\<close> for an integer, as an f-string prints it.\<close>

fun digits :: "nat \<Rightarrow> string" where
  "digits n =
     (if n < 10 then [''0123456789'' ! n]
      else digits (n div 10) @ [''0123456789'' ! (n mod 10)])"

definition str_int :: "int \<Rightarrow> string" where
  "str_int i = (if i < 0 then ''-'' @ digits (nat (- i)) else digits (nat i))"

text \<open>\<open>sep.join(xs)\<close>.\<close>

fun join :: "string \<Rightarrow> string list \<Rightarrow> string" where
  "join sep [] = []"
| "join sep [x] = x"
| "join sep (x # y # ys) = x @ sep @ join sep (y # ys)"

text \<open>
  \<open>s.lower()\<close> on ASCII letters; every other byte stays. \<open>s.strip()\<close> removes the ASCII
  whitespace at both ends. \<open>a in b\<close> on strings is \<open>sublist a b\<close>: \<open>a\<close> occurs in \<open>b\<close> as a
  contiguous run.
\<close>

definition lower_char :: "char \<Rightarrow> char" where
  "lower_char c =
     (let n = (of_char c :: nat) in if 65 \<le> n \<and> n \<le> 90 then char_of (n + 32) else c)"

definition lower :: "string \<Rightarrow> string" where
  "lower s = map lower_char s"

definition is_space :: "char \<Rightarrow> bool" where
  "is_space c = (let n = (of_char c :: nat) in (9 \<le> n \<and> n \<le> 13) \<or> (28 \<le> n \<and> n \<le> 32))"

definition strip :: "string \<Rightarrow> string" where
  "strip s = rev (dropWhile is_space (rev (dropWhile is_space s)))"

section \<open>The literal texts of the source\<close>

definition txt_api_error :: string where
  "txt_api_error =
     ''API '' @ [CHR 0xE9, CHR 0x94, CHR 0x99, CHR 0xE8, CHR 0xAF, CHR 0xAF] @ '': ''"

definition txt_ok_mark :: string where
  "txt_ok_mark =
     [CHR 0xE2, CHR 0x9C, CHR 0x85] @ '' ''"

definition txt_this_route :: string where
  "txt_this_route =
     [CHR 0xE8, CHR 0xAF, CHR 0xA5, CHR 0xE7, CHR 0xBA, CHR 0xBF, CHR 0xE8, CHR 0xB7,
     CHR 0xAF]"

definition txt_subway_system :: string where
  "txt_subway_system =
     [CHR 0xE5, CHR 0x9C, CHR 0xB0, CHR 0xE9, CHR 0x93, CHR 0x81, CHR 0xE7, CHR 0xB3,
     CHR 0xBB, CHR 0xE7, CHR 0xBB, CHR 0x9F]"

definition txt_no_alerts :: string where
  "txt_no_alerts =
     [CHR 0xE7, CHR 0x9B, CHR 0xAE, CHR 0xE5, CHR 0x89, CHR 0x8D, CHR 0xE6, CHR 0xB2,
     CHR 0xA1, CHR 0xE6, CHR 0x9C, CHR 0x89, CHR 0xE6, CHR 0x9C, CHR 0x8D, CHR 0xE5,
     CHR 0x8A, CHR 0xA1, CHR 0xE8, CHR 0xAD, CHR 0xA6, CHR 0xE6, CHR 0x8A, CHR 0xA5,
     CHR 0xEF, CHR 0xBC, CHR 0x8C, CHR 0xE8, CHR 0xBF, CHR 0x90, CHR 0xE8, CHR 0x90,
     CHR 0xA5, CHR 0xE6, CHR 0xAD, CHR 0xA3, CHR 0xE5, CHR 0xB8, CHR 0xB8, CHR 0xE3,
     CHR 0x80, CHR 0x82]"

definition txt_found :: string where
  "txt_found =
     [CHR 0xE2, CHR 0x9A, CHR 0xA0, CHR 0xEF, CHR 0xB8, CHR 0x8F] @ '' '' @ [CHR 0xE5,
     CHR 0x8F, CHR 0x91, CHR 0xE7, CHR 0x8E, CHR 0xB0] @ '' ''"

definition txt_alerts_tail :: string where
  "txt_alerts_tail =
     '' '' @ [CHR 0xE6, CHR 0x9D, CHR 0xA1, CHR 0xE6, CHR 0x9C, CHR 0x8D, CHR 0xE5,
     CHR 0x8A, CHR 0xA1, CHR 0xE8, CHR 0xAD, CHR 0xA6, CHR 0xE6, CHR 0x8A, CHR 0xA5] @
     '':''"

definition txt_no_prediction_data :: string where
  "txt_no_prediction_data =
     [CHR 0xE5, CHR 0xBD, CHR 0x93, CHR 0xE5, CHR 0x89, CHR 0x8D, CHR 0xE6, CHR 0xB2,
     CHR 0xA1, CHR 0xE6, CHR 0x9C, CHR 0x89, CHR 0xE9, CHR 0xA2, CHR 0x84, CHR 0xE6,
     CHR 0xB5, CHR 0x8B, CHR 0xE6, CHR 0x95, CHR 0xB0, CHR 0xE6, CHR 0x8D, CHR 0xAE,
     CHR 0xEF, CHR 0xBC, CHR 0x8C, CHR 0xE5, CHR 0x8F, CHR 0xAF, CHR 0xE8, CHR 0x83,
     CHR 0xBD, CHR 0xE4, CHR 0xB8, CHR 0x8D, CHR 0xE5, CHR 0x9C, CHR 0xA8, CHR 0xE8,
     CHR 0xBF, CHR 0x90, CHR 0xE8, CHR 0x90, CHR 0xA5, CHR 0xE6, CHR 0x97, CHR 0xB6,
     CHR 0xE9, CHR 0x97, CHR 0xB4]"

definition txt_unknown :: string where
  "txt_unknown =
     [CHR 0xE6, CHR 0x9C, CHR 0xAA, CHR 0xE7, CHR 0x9F, CHR 0xA5]"

definition txt_direction :: string where
  "txt_direction =
     [CHR 0xE6, CHR 0x96, CHR 0xB9, CHR 0xE5, CHR 0x90, CHR 0x91]"

definition txt_no_train_data :: string where
  "txt_no_train_data =
     [CHR 0xE2, CHR 0x9A, CHR 0xA0, CHR 0xEF, CHR 0xB8, CHR 0x8F] @ '' '' @ [CHR 0xE5,
     CHR 0xBD, CHR 0x93, CHR 0xE5, CHR 0x89, CHR 0x8D, CHR 0xE6, CHR 0xB2, CHR 0xA1,
     CHR 0xE6, CHR 0x9C, CHR 0x89, CHR 0xE5, CHR 0x88, CHR 0x97, CHR 0xE8, CHR 0xBD,
     CHR 0xA6, CHR 0xE9, CHR 0xA2, CHR 0x84, CHR 0xE6, CHR 0xB5, CHR 0x8B, CHR 0xE6,
     CHR 0x95, CHR 0xB0, CHR 0xE6, CHR 0x8D, CHR 0xAE, CHR 0xE3, CHR 0x80, CHR 0x82,
     CHR 0xE5, CHR 0x8F, CHR 0xAF, CHR 0xE8, CHR 0x83, CHR 0xBD, CHR 0xE5, CHR 0x8E,
     CHR 0x9F, CHR 0xE5, CHR 0x9B, CHR 0xA0, CHR 0xEF, CHR 0xBC, CHR 0x9A] @ ''1) '' @
     [CHR 0xE7, CHR 0xBA, CHR 0xBF, CHR 0xE8, CHR 0xB7, CHR 0xAF, CHR 0xE5, CHR 0x81,
     CHR 0x9C, CHR 0xE8, CHR 0xBF, CHR 0x90, CHR 0xE6, CHR 0x88, CHR 0x96, CHR 0xE7,
     CHR 0xBB, CHR 0xB4, CHR 0xE4, CHR 0xBF, CHR 0xAE, CHR 0xE4, CHR 0xB8, CHR 0xAD] @
     '' 2) '' @ [CHR 0xE4, CHR 0xB8, CHR 0x8D, CHR 0xE5, CHR 0x9C, CHR 0xA8, CHR 0xE8,
     CHR 0xBF, CHR 0x90, CHR 0xE8, CHR 0x90, CHR 0xA5, CHR 0xE6, CHR 0x97, CHR 0xB6,
     CHR 0xE9, CHR 0x97, CHR 0xB4] @ '' 3) '' @ [CHR 0xE6, CHR 0x9C, CHR 0x8D, CHR 0xE5,
     CHR 0x8A, CHR 0xA1, CHR 0xE4, CHR 0xB8, CHR 0xAD, CHR 0xE6, CHR 0x96, CHR 0xAD,
     CHR 0xE3, CHR 0x80, CHR 0x82, CHR 0xE8, CHR 0xAF, CHR 0xB7, CHR 0xE6, CHR 0x9F,
     CHR 0xA5, CHR 0xE7, CHR 0x9C, CHR 0x8B] @ '' MBTA '' @ [CHR 0xE5, CHR 0xAE,
     CHR 0x98, CHR 0xE6, CHR 0x96, CHR 0xB9, CHR 0xE8, CHR 0xAD, CHR 0xA6, CHR 0xE6,
     CHR 0x8A, CHR 0xA5, CHR 0xE8, CHR 0x8E, CHR 0xB7, CHR 0xE5, CHR 0x8F, CHR 0x96,
     CHR 0xE8, CHR 0xAF, CHR 0xA6, CHR 0xE6, CHR 0x83, CHR 0x85, CHR 0xE3, CHR 0x80,
     CHR 0x82]"

definition txt_arriving :: string where
  "txt_arriving =
     [CHR 0xE5, CHR 0x8D, CHR 0xB3, CHR 0xE5, CHR 0xB0, CHR 0x86, CHR 0xE5, CHR 0x88,
     CHR 0xB0, CHR 0xE8, CHR 0xBE, CHR 0xBE]"

definition txt_one_minute :: string where
  "txt_one_minute =
     ''1 '' @ [CHR 0xE5, CHR 0x88, CHR 0x86, CHR 0xE9, CHR 0x92, CHR 0x9F, CHR 0xE5,
     CHR 0x90, CHR 0x8E, CHR 0xE5, CHR 0x88, CHR 0xB0, CHR 0xE8, CHR 0xBE, CHR 0xBE]"

definition txt_minutes_arrive :: string where
  "txt_minutes_arrive =
     '' '' @ [CHR 0xE5, CHR 0x88, CHR 0x86, CHR 0xE9, CHR 0x92, CHR 0x9F, CHR 0xE5,
     CHR 0x90, CHR 0x8E, CHR 0xE5, CHR 0x88, CHR 0xB0, CHR 0xE8, CHR 0xBE, CHR 0xBE]"

definition txt_next_train :: string where
  "txt_next_train =
     '' '' @ [CHR 0xE7, CHR 0xBA, CHR 0xBF, CHR 0xE4, CHR 0xB8, CHR 0x8B, CHR 0xE4,
     CHR 0xB8, CHR 0x80, CHR 0xE7, CHR 0x8F, CHR 0xAD, CHR 0xE8, CHR 0xBD, CHR 0xA6] @
     '' ''"

definition txt_towards :: string where
  "txt_towards =
     [CHR 0xEF, CHR 0xBC, CHR 0x8C, CHR 0xE6, CHR 0x96, CHR 0xB9, CHR 0xE5, CHR 0x90,
     CHR 0x91] @ '' ''"

definition txt_warn :: string where
  "txt_warn =
     [CHR 0xE2, CHR 0x9A, CHR 0xA0, CHR 0xEF, CHR 0xB8, CHR 0x8F] @ '' ''"

definition txt_no_data_at_stop :: string where
  "txt_no_data_at_stop =
     '' '' @ [CHR 0xE7, CHR 0xBA, CHR 0xBF, CHR 0xE5, CHR 0x9C, CHR 0xA8, CHR 0xE8,
     CHR 0xAF, CHR 0xA5, CHR 0xE7, CHR 0xAB, CHR 0x99, CHR 0xE5, CHR 0xBD, CHR 0x93,
     CHR 0xE5, CHR 0x89, CHR 0x8D, CHR 0xE6, CHR 0xB2, CHR 0xA1, CHR 0xE6, CHR 0x9C,
     CHR 0x89, CHR 0xE5, CHR 0x88, CHR 0x97, CHR 0xE8, CHR 0xBD, CHR 0xA6, CHR 0xE6,
     CHR 0x95, CHR 0xB0, CHR 0xE6, CHR 0x8D, CHR 0xAE, CHR 0xE3, CHR 0x80, CHR 0x82,
     CHR 0xE5, CHR 0x8F, CHR 0xAF, CHR 0xE8, CHR 0x83, CHR 0xBD, CHR 0xE5, CHR 0x8E,
     CHR 0x9F, CHR 0xE5, CHR 0x9B, CHR 0xA0, CHR 0xEF, CHR 0xBC, CHR 0x9A, CHR 0xE7,
     CHR 0xBA, CHR 0xBF, CHR 0xE8, CHR 0xB7, CHR 0xAF, CHR 0xE5, CHR 0x81, CHR 0x9C,
     CHR 0xE8, CHR 0xBF, CHR 0x90, CHR 0xE3, CHR 0x80, CHR 0x81, CHR 0xE7, CHR 0xBB,
     CHR 0xB4, CHR 0xE4, CHR 0xBF, CHR 0xAE, CHR 0xE4, CHR 0xB8, CHR 0xAD, CHR 0xE3,
     CHR 0x80, CHR 0x81, CHR 0xE6, CHR 0x88, CHR 0x96, CHR 0xE4, CHR 0xB8, CHR 0x8D,
     CHR 0xE5, CHR 0x9C, CHR 0xA8, CHR 0xE8, CHR 0xBF, CHR 0x90, CHR 0xE8, CHR 0x90,
     CHR 0xA5, CHR 0xE6, CHR 0x97, CHR 0xB6, CHR 0xE9, CHR 0x97, CHR 0xB4, CHR 0xE3,
     CHR 0x80, CHR 0x82]"

definition txt_line :: string where
  "txt_line =
     '' '' @ [CHR 0xE7, CHR 0xBA, CHR 0xBF] @ '':''"

definition txt_arrow :: string where
  "txt_arrow =
     ''  '' @ [CHR 0xE2, CHR 0x86, CHR 0x92] @ '' ''"

definition txt_minutes_later :: string where
  "txt_minutes_later =
     '' '' @ [CHR 0xE5, CHR 0x88, CHR 0x86, CHR 0xE9, CHR 0x92, CHR 0x9F, CHR 0xE5,
     CHR 0x90, CHR 0x8E]"

definition txt_unknown_tool :: string where
  "txt_unknown_tool =
     [CHR 0xE6, CHR 0x9C, CHR 0xAA, CHR 0xE7, CHR 0x9F, CHR 0xA5, CHR 0xE5, CHR 0xB7,
     CHR 0xA5, CHR 0xE5, CHR 0x85, CHR 0xB7] @ '': ''"

section \<open>Transit data client (tools/mbta.py)\<close>

subsection \<open>Upstream data\<close>

text \<open>
  What \<open>requests.get\<close> returned: the status code and the body. The body is \<open>None\<close> when it
  is not JSON (\<open>response.json()\<close> raises), else the list under \<open>data\<close> of the document
  (the empty list when the key is absent), its resources typed as the API documents them.
  A field read with \<open>attrs.get\<close> is an option, \<open>None\<close> for an absent key.
\<close>

datatype exn = JSONDecodeError | ValueError | TypeError | KeyError

record 'a response =
  status_code :: int
  body :: "'a list option"

text \<open>
  An aware \<open>datetime\<close>: the instant in microseconds since the epoch, which comparison
  and subtraction use, and the wall-clock fields \<open>strftime\<close> prints.
\<close>

record datetime =
  instant :: int
  hour :: nat
  minute :: nat
  second :: nat

text \<open>
  What \<open>datetime.fromisoformat\<close> makes of a non-empty timestamp text: an aware value, a
  naive one (no offset in the text; comparing it with the aware \<open>now\<close> raises
  \<open>TypeError\<close>), or \<open>ValueError\<close> for a text it cannot read.
\<close>

datatype timestr = Aware datetime | Naive | Malformed

text \<open>
  A prediction resource. \<open>arrival_time\<close> and \<open>departure_time\<close> are \<open>None\<close> when the key
  is absent, null or the empty text (all false in a condition). \<open>route_data\<close> is the id
  under \<open>relationships.route.data\<close>, \<open>None\<close> when that is null.
\<close>

record pred_resource =
  arrival_time :: "timestr option"
  departure_time :: "timestr option"
  direction_id :: "int option"
  pr_status :: "jv option"
  route_data :: "string option"

record stop_resource =
  sr_id :: string
  sr_name :: string

record route_resource =
  rr_id :: string
  long_name :: string
  color :: "jv option"

text \<open>An alert resource; each informed entity is its \<open>route\<close> when it has one.\<close>

record alert_resource =
  ar_header :: "string option"
  ar_description :: "jv option"
  ar_effect :: "string option"
  ar_severity :: "int option"
  informed_entity :: "string option list"
  ar_updated_at :: "jv option"

subsection \<open>Normalized records and result dicts\<close>

record prediction =
  route :: string
  direction :: string
  minutes :: int
  time :: string
  status :: jv

record stop =
  s_id :: string
  s_name :: string

record route_summary =
  r_id :: string
  r_name :: string
  r_color :: jv
  r_directions :: "(int \<times> string) list"

record alert =
  header :: string
  description :: jv
  effect :: string
  severity :: int
  affected_routes :: "string list"
  updated_at :: jv

record dir_info =
  di_minutes :: int
  di_time :: string

text \<open>The values a result dict of the client holds under its keys.\<close>

datatype val =
    VNone
  | VBool bool
  | VInt int
  | VStr string
  | VPredictions "prediction list"
  | VStops "stop list"
  | VRoutes "route_summary list"
  | VAlerts "alert list"
  | VDirNames "(int \<times> string) list"
  | VDirections "(string \<times> dir_info) list"

type_synonym dict = "(string \<times> val) list"

text \<open>An optional string argument as a dict value, and its truth in a condition.\<close>

definition opt_str :: "string option \<Rightarrow> val" where
  "opt_str x = (case x of None \<Rightarrow> VNone | Some s \<Rightarrow> VStr s)"

definition truthy :: "string option \<Rightarrow> bool" where
  "truthy x = (case x of None \<Rightarrow> False | Some s \<Rightarrow> s \<noteq> [])"

definition ROUTE_DIRECTIONS :: "(string \<times> (int \<times> string) list) list" where
  "ROUTE_DIRECTIONS =
     [(''Red'', [(0, ''Ashmont/Braintree''), (1, ''Alewife'')]),
      (''Orange'', [(0, ''Forest Hills''), (1, ''Oak Grove'')]),
      (''Blue'', [(0, ''Bowdoin''), (1, ''Wonderland'')]),
      (''Green-B'', [(0, ''Park Street''), (1, ''Boston College'')]),
      (''Green-C'', [(0, ''Park Street''), (1, ''Cleveland Circle'')]),
      (''Green-D'', [(0, ''Union Square''), (1, ''Riverside'')]),
      (''Green-E'', [(0, ''Medford/Tufts''), (1, ''Heath Street'')])]"

text \<open>\<open>ROUTE_DIRECTIONS.get(route_id, {})\<close>.\<close>

definition route_directions :: "string \<Rightarrow> (int \<times> string) list" where
  "route_directions route_id =
     (case map_of ROUTE_DIRECTIONS route_id of None \<Rightarrow> [] | Some d \<Rightarrow> d)"

text \<open>The error result of every operation for a status other than 200.\<close>

definition api_error :: "int \<Rightarrow> string" where
  "api_error code = txt_api_error @ str_int code"

subsection \<open>get_alerts\<close>

text \<open>
  \<open>list(set(affected_routes))\<close> leaves the order of the routes open; the model keeps
  the order of first occurrence.
\<close>

definition normalize_alert :: "alert_resource \<Rightarrow> alert" where
  "normalize_alert a =
     \<lparr>header = (case ar_header a of None \<Rightarrow> [] | Some h \<Rightarrow> h),
      description = (case ar_description a of None \<Rightarrow> JStr [] | Some d \<Rightarrow> d),
      effect = (case ar_effect a of None \<Rightarrow> [] | Some e \<Rightarrow> e),
      severity = (case ar_severity a of None \<Rightarrow> 0 | Some n \<Rightarrow> n),
      affected_routes = remdups (List.map_filter (\<lambda>e. e) (informed_entity a)),
      updated_at = (case ar_updated_at a of None \<Rightarrow> JStr [] | Some u \<Rightarrow> u)\<rparr>"

definition alert_line :: "nat \<times> alert \<Rightarrow> string" where
  "alert_line x =
     (case x of (i, a) \<Rightarrow> ''  '' @ digits i @ ''. ['' @ effect a @ ''] '' @ header a)"

definition get_alerts :: "alert_resource response \<Rightarrow> string option \<Rightarrow> exn + dict" where
  "get_alerts resp route_id =
     (if status_code resp \<noteq> 200
      then Inr [(''error'', VStr (api_error (status_code resp)))]
      else case body resp of
        None \<Rightarrow> Inl JSONDecodeError
      | Some alerts_data \<Rightarrow>
          let alerts = sort_key (\<lambda>a. - severity a) (map normalize_alert alerts_data) in
          if alerts = []
          then Inr [(''route_filter'', opt_str route_id),
                    (''has_alerts'', VBool False),
                    (''alerts'', VAlerts []),
                    (''message'', VStr (txt_ok_mark
                        @ (if truthy route_id then txt_this_route else txt_subway_system)
                        @ txt_no_alerts))]
          else
            let lines = [txt_found @ digits (length alerts) @ txt_alerts_tail]
                        @ map alert_line (enumerate 1 (take 5 alerts)) in
            Inr [(''route_filter'', opt_str route_id),
                 (''has_alerts'', VBool True),
                 (''alert_count'', VInt (int (length alerts))),
                 (''alerts'', VAlerts (take 10 alerts)),
                 (''message'', VStr (join [CHR 0x0A] lines))])"

subsection \<open>get_routes, get_stops, search_stops\<close>

definition normalize_route :: "route_resource \<Rightarrow> route_summary" where
  "normalize_route r =
     \<lparr>r_id = rr_id r, r_name = long_name r,
      r_color = (case color r of None \<Rightarrow> JStr [] | Some c \<Rightarrow> c),
      r_directions = route_directions (rr_id r)\<rparr>"

definition get_routes :: "route_resource response \<Rightarrow> exn + dict" where
  "get_routes resp =
     (if status_code resp \<noteq> 200
      then Inr [(''error'', VStr (api_error (status_code resp)))]
      else case body resp of
        None \<Rightarrow> Inl JSONDecodeError
      | Some data \<Rightarrow> Inr [(''routes'', VRoutes (map normalize_route data))])"

text \<open>
  The loop of \<open>get_stops\<close>: \<open>seen\<close> is the set of names met so far, \<open>stops\<close> the list
  built so far.
\<close>

fun stops_loop :: "stop_resource list \<Rightarrow> string set \<Rightarrow> stop list \<Rightarrow> stop list" where
  "stops_loop [] seen stops = stops"
| "stops_loop (st # rest) seen stops =
     (if sr_name st \<notin> seen
      then stops_loop rest (insert (sr_name st) seen)
             (stops @ [\<lparr>s_id = sr_id st, s_name = sr_name st\<rparr>])
      else stops_loop rest seen stops)"

definition get_stops :: "stop_resource response \<Rightarrow> string \<Rightarrow> exn + dict" where
  "get_stops resp route_id =
     (if status_code resp \<noteq> 200
      then Inr [(''error'', VStr (api_error (status_code resp)))]
      else case body resp of
        None \<Rightarrow> Inl JSONDecodeError
      | Some data \<Rightarrow>
          Inr [(''route'', VStr route_id),
               (''directions'', VDirNames (route_directions route_id)),
               (''stops'', VStops (stops_loop data {} []))])"

text \<open>The loop of \<open>search_stops\<close>: a name enters \<open>seen\<close> only when it matches.\<close>

fun matches_loop ::
  "string \<Rightarrow> stop_resource list \<Rightarrow> string set \<Rightarrow> stop list \<Rightarrow> stop list" where
  "matches_loop query_lower [] seen matches = matches"
| "matches_loop query_lower (st # rest) seen matches =
     (if sr_name st \<notin> seen \<and> sublist query_lower (lower (sr_name st))
      then matches_loop query_lower rest (insert (sr_name st) seen)
             (matches @ [\<lparr>s_id = sr_id st, s_name = sr_name st\<rparr>])
      else matches_loop query_lower rest seen matches)"

definition search_stops :: "stop_resource response \<Rightarrow> string \<Rightarrow> exn + dict" where
  "search_stops resp query =
     (if status_code resp \<noteq> 200
      then Inr [(''error'', VStr (api_error (status_code resp)))]
      else case body resp of
        None \<Rightarrow> Inl JSONDecodeError
      | Some data \<Rightarrow>
          let query_lower = strip (lower query);
              matches = matches_loop query_lower data {} [] in
          Inr [(''query'', VStr query),
               (''count'', VInt (int (length matches))),
               (''results'', VStops matches)])"

subsection \<open>get_predictions\<close>

text \<open>
  \<open>round(n / d)\<close> for \<open>d > 0\<close>: to the nearest integer, a tie to the even one. The source
  divides floats; the model divides exactly.
\<close>

definition py_round_div :: "int \<Rightarrow> int \<Rightarrow> int" where
  "py_round_div n d =
     (let q = n div d; r = n mod d in
      if 2 * r < d then q
      else if d < 2 * r then q + 1
      else if even q then q else q + 1)"

text \<open>Minutes from \<open>now\<close> to an instant, both in microseconds.\<close>

definition wait_minutes :: "int \<Rightarrow> int \<Rightarrow> int" where
  "wait_minutes now t = py_round_div (t - now) 60000000"

definition two_digits :: "nat \<Rightarrow> string" where
  "two_digits n = (if n < 10 then ''0'' @ digits n else digits n)"

definition strftime_HMS :: "datetime \<Rightarrow> string" where
  "strftime_HMS t =
     two_digits (hour t) @ '':'' @ two_digits (minute t) @ '':'' @ two_digits (second t)"

text \<open>\<open>attrs.get("arrival_time") or attrs.get("departure_time")\<close>.\<close>

definition arrival_str :: "pred_resource \<Rightarrow> timestr option" where
  "arrival_str pred =
     (case arrival_time pred of Some t \<Rightarrow> Some t | None \<Rightarrow> departure_time pred)"

definition direction_name :: "string \<Rightarrow> int \<Rightarrow> string" where
  "direction_name route_name dir_id =
     (case map_of (route_directions route_name) dir_id of
        None \<Rightarrow> txt_direction @ str_int dir_id
      | Some n \<Rightarrow> n)"

text \<open>The record appended for a resource whose time \<open>t\<close> is not before \<open>now\<close>.\<close>

definition normalize_prediction :: "int \<Rightarrow> pred_resource \<Rightarrow> datetime \<Rightarrow> prediction" where
  "normalize_prediction now pred t =
     (let route_name = (case route_data pred of None \<Rightarrow> txt_unknown | Some r \<Rightarrow> r);
          dir_id = (case direction_id pred of None \<Rightarrow> 0 | Some d \<Rightarrow> d) in
      \<lparr>route = route_name,
       direction = direction_name route_name dir_id,
       minutes = wait_minutes now (instant t),
       time = strftime_HMS t,
       status = (case pr_status pred of None \<Rightarrow> JStr [] | Some s \<Rightarrow> s)\<rparr>)"

text \<open>
  The loop over \<open>predictions_data\<close>, \<open>predictions\<close> being the list built so far: a
  resource with no time is skipped, one whose time cannot be read or compared raises, one
  before \<open>now\<close> is skipped.
\<close>

fun predictions_loop ::
  "int \<Rightarrow> pred_resource list \<Rightarrow> prediction list \<Rightarrow> exn + prediction list" where
  "predictions_loop now [] predictions = Inr predictions"
| "predictions_loop now (pred # rest) predictions =
     (case arrival_str pred of
        None \<Rightarrow> predictions_loop now rest predictions
      | Some Malformed \<Rightarrow> Inl ValueError
      | Some Naive \<Rightarrow> Inl TypeError
      | Some (Aware t) \<Rightarrow>
          if instant t < now then predictions_loop now rest predictions
          else predictions_loop now rest
                 (predictions @ [normalize_prediction now pred t]))"

definition direction_filter :: "string option \<Rightarrow> prediction list \<Rightarrow> prediction list" where
  "direction_filter dir ps =
     (case dir of
        None \<Rightarrow> ps
      | Some d \<Rightarrow>
          if d = [] then ps
          else filter (\<lambda>p. sublist (lower d) (lower (direction p))) ps)"

definition get_predictions ::
  "int \<Rightarrow> pred_resource response \<Rightarrow> string \<Rightarrow> string option \<Rightarrow> string option
     \<Rightarrow> exn + dict" where
  "get_predictions now resp stop_id route_id dir =
     (if status_code resp \<noteq> 200
      then Inr [(''error'', VStr (api_error (status_code resp))), (''stop_id'', VStr stop_id)]
      else case body resp of
        None \<Rightarrow> Inl JSONDecodeError
      | Some predictions_data \<Rightarrow>
          if predictions_data = []
          then Inr [(''stop_id'', VStr stop_id),
                    (''predictions'', VPredictions []),
                    (''message'', VStr txt_no_prediction_data)]
          else case predictions_loop now predictions_data [] of
            Inl e \<Rightarrow> Inl e
          | Inr predictions \<Rightarrow>
              Inr [(''stop_id'', VStr stop_id),
                   (''route_filter'', opt_str route_id),
                   (''direction_filter'', opt_str dir),
                   (''predictions'',
                    VPredictions (take 10 (direction_filter dir (sort_key minutes predictions))))])"

subsection \<open>get_next_train, get_both_directions\<close>

text \<open>\<open>result["predictions"]\<close>, read back from a result dict.\<close>

definition getitem_predictions :: "dict \<Rightarrow> exn + prediction list" where
  "getitem_predictions result =
     (case map_of result ''predictions'' of
        None \<Rightarrow> Inl KeyError
      | Some (VPredictions ps) \<Rightarrow> Inr ps
      | Some _ \<Rightarrow> Inl TypeError)"

definition get_next_train ::
  "int \<Rightarrow> pred_resource response \<Rightarrow> string \<Rightarrow> string option \<Rightarrow> string option
     \<Rightarrow> exn + dict" where
  "get_next_train now resp stop_id route_id dir =
     (case get_predictions now resp stop_id route_id dir of
        Inl e \<Rightarrow> Inl e
      | Inr result \<Rightarrow>
          if has_key result ''error'' then Inr result
          else case getitem_predictions result of
            Inl e \<Rightarrow> Inl e
          | Inr [] \<Rightarrow>
              Inr [(''stop_id'', VStr stop_id),
                   (''route_filter'', opt_str route_id),
                   (''direction_filter'', opt_str dir),
                   (''has_data'', VBool False),
                   (''predictions'', VPredictions []),
                   (''message'', VStr txt_no_train_data)]
          | Inr (next_train # _) \<Rightarrow>
              let mins = minutes next_train;
                  time_str = (if mins < 1 then txt_arriving
                              else if mins = 1 then txt_one_minute
                              else str_int mins @ txt_minutes_arrive);
                  message = route next_train @ txt_next_train @ time_str
                            @ txt_towards @ direction next_train
              in Inr [(''stop_id'', VStr stop_id),
                      (''route'', VStr (route next_train)),
                      (''direction'', VStr (direction next_train)),
                      (''minutes'', VInt mins),
                      (''time'', VStr (time next_train)),
                      (''has_data'', VBool True),
                      (''message'', VStr message)])"

text \<open>The grouping loop of \<open>get_both_directions\<close>: the first record of a direction stays.\<close>

fun directions_loop ::
  "prediction list \<Rightarrow> (string \<times> dir_info) list \<Rightarrow> (string \<times> dir_info) list" where
  "directions_loop [] directions = directions"
| "directions_loop (pred # rest) directions =
     (if \<not> has_key directions (direction pred)
      then directions_loop rest
             (directions @ [(direction pred, \<lparr>di_minutes = minutes pred, di_time = time pred\<rparr>)])
      else directions_loop rest directions)"

definition direction_line :: "string \<times> dir_info \<Rightarrow> string" where
  "direction_line x =
     (case x of (dir_name, info) \<Rightarrow>
        if di_minutes info < 1 then txt_arrow @ dir_name @ '': '' @ txt_arriving
        else txt_arrow @ dir_name @ '': '' @ str_int (di_minutes info) @ txt_minutes_later)"

definition get_both_directions ::
  "int \<Rightarrow> pred_resource response \<Rightarrow> string \<Rightarrow> string \<Rightarrow> exn + dict" where
  "get_both_directions now resp stop_id route_id =
     (case get_predictions now resp stop_id (Some route_id) None of
        Inl e \<Rightarrow> Inl e
      | Inr result \<Rightarrow>
          if has_key result ''error'' then Inr result
          else case getitem_predictions result of
            Inl e \<Rightarrow> Inl e
          | Inr [] \<Rightarrow>
              Inr [(''stop_id'', VStr stop_id),
                   (''route'', VStr route_id),
                   (''has_data'', VBool False),
                   (''directions'', VDirections []),
                   (''message'', VStr (txt_warn @ route_id @ txt_no_data_at_stop))]
          | Inr (p # ps) \<Rightarrow>
              let directions = directions_loop (p # ps) [];
                  lines = [route_id @ txt_line] @ map direction_line directions in
              Inr [(''stop_id'', VStr stop_id),
                   (''route'', VStr route_id),
                   (''has_data'', VBool True),
                   (''directions'', VDirections directions),
                   (''message'', VStr (join [CHR 0x0A] lines))])"

section \<open>Agent (agent.py)\<close>

subsection \<open>State\<close>

text \<open>
  The user memory document of \<open>_load_memory\<close>: \<open>preferences\<close> is a dict, \<open>facts\<close> a list.
  The values \<open>None\<close> of the source are \<open>JNull\<close> (and \<open>None\<close> for \<open>last_conversation\<close>).
\<close>

record user_memory =
  um_user_id :: string
  created_at :: string
  preferences :: "(string \<times> jv) list"
  facts :: "string list"
  conversation_count :: int
  last_conversation :: "string option"

text \<open>
  A tool call the model asks for. \<open>tc_arguments\<close> is what \<open>json.loads\<close> makes of the
  argument text: \<open>None\<close> when it raises \<open>JSONDecodeError\<close>.
\<close>

record tool_call =
  tc_id :: string
  tc_name :: string
  tc_arguments :: "jv option"

text \<open>
  The message of a model response; \<open>tool_calls\<close> is empty when the response asks for no
  tool (an empty list and \<open>None\<close> are both false in the loop condition).
\<close>

record assistant_message =
  content :: "string option"
  tool_calls :: "tool_call list"

text \<open>
  \<open>Dumps a v\<close> is the text \<open>json.dumps(v, ensure_ascii=a)\<close>, kept as the value it
  serializes.
\<close>

datatype dumped = Dumps bool jv

datatype message =
    SystemMsg string
  | UserMsg string
  | AssistantCalls assistant_message
  | ToolMsg string dumped
  | AssistantMsg "string option"

text \<open>
  A registered tool, applied as \<open>self.tools[name](**arguments)\<close>: it returns a value or
  raises an exception \<open>e\<close>, \<open>Inl\<close> holding \<open>str(e)\<close>.
\<close>

type_synonym tool = "jv \<Rightarrow> string + jv"

text \<open>
  The agent, with what it changes outside itself: the files under \<open>MEMORY_DIR\<close>, each
  holding the document \<open>json.dump\<close> wrote last, and the lines printed, one
  (\<open>func_name\<close>, \<open>func_args\<close>) per tool call. A write that fails is outside the model.
\<close>

record agent =
  user_id :: string
  memory :: user_memory
  messages :: "message list"
  tools :: "string \<rightharpoonup> tool"
  tool_schemas :: "jv list"
  files :: "string \<rightharpoonup> user_memory"
  printed :: "(string \<times> jv) list"

subsection \<open>Long-term memory\<close>

definition MEMORY_DIR :: string where
  "MEMORY_DIR = ''memory''"

text \<open>\<open>os.path.join(a, b)\<close> on two components: an absolute \<open>b\<close> replaces \<open>a\<close>.\<close>

definition path_join :: "string \<Rightarrow> string \<Rightarrow> string" where
  "path_join a b =
     (if b \<noteq> [] \<and> hd b = CHR ''/'' then b
      else if a = [] \<or> last a = CHR ''/'' then a @ b
      else a @ ''/'' @ b)"

definition get_memory_path :: "agent \<Rightarrow> string" where
  "get_memory_path s = path_join MEMORY_DIR (user_id s @ ''.json'')"

text \<open>The seven preference keys of a new user's document, in the source's order.\<close>

definition preference_keys :: "string list" where
  "preference_keys =
     [''language'', ''home_station'', ''home_station_name'', ''work_station'',
      ''work_station_name'', ''preferred_line'', ''preferred_direction'']"

text \<open>
  \<open>_load_memory\<close>: the stored document when the file exists, else the default one.
  \<open>now_iso\<close> is \<open>datetime.now().isoformat()\<close>.
\<close>

definition default_memory :: "string \<Rightarrow> string \<Rightarrow> user_memory" where
  "default_memory uid now_iso =
     \<lparr>um_user_id = uid, created_at = now_iso,
      preferences = map (\<lambda>k. (k, JNull)) preference_keys,
      facts = [], conversation_count = 0, last_conversation = None\<rparr>"

definition load_memory :: "string \<Rightarrow> agent \<Rightarrow> user_memory" where
  "load_memory now_iso s =
     (case files s (get_memory_path s) of
        Some doc \<Rightarrow> doc
      | None \<Rightarrow> default_memory (user_id s) now_iso)"

text \<open>\<open>_save_memory\<close>: the whole document overwrites the user's file.\<close>

definition save_memory :: "agent \<Rightarrow> agent" where
  "save_memory s = s\<lparr>files := (files s)(get_memory_path s \<mapsto> memory s)\<rparr>"

text \<open>
  \<open>set_preference\<close>: the key is looked up in the preference dict of the loaded document;
  only a key found there is assigned (in place) and saved.
\<close>

definition set_preference :: "string \<Rightarrow> jv \<Rightarrow> agent \<Rightarrow> bool \<times> agent" where
  "set_preference key v s =
     (if has_key (preferences (memory s)) key
      then (True,
            save_memory
              (s\<lparr>memory := (memory s)\<lparr>preferences :=
                   AList.update key v (preferences (memory s))\<rparr>\<rparr>))
      else (False, s))"


text \<open>\<open>add_fact\<close>: appended and saved only when the exact text is not in the list yet.\<close>

definition add_fact :: "string \<Rightarrow> agent \<Rightarrow> agent" where
  "add_fact txt s =
     (if txt \<notin> set (facts (memory s))
      then save_memory (s\<lparr>memory := (memory s)\<lparr>facts := facts (memory s) @ [txt]\<rparr>\<rparr>)
      else s)"

text \<open>
  The shape of a document as the data model has it: the preference dict has exactly the
  seven keys, and no fact occurs twice. A new user's document has this shape and the
  operations of the agent keep it.
\<close>

definition wf_memory :: "user_memory \<Rightarrow> bool" where
  "wf_memory m = (map fst (preferences m) = preference_keys \<and> distinct (facts m))"

subsection \<open>Tools\<close>

definition register_tool :: "string \<Rightarrow> tool \<Rightarrow> jv \<Rightarrow> agent \<Rightarrow> agent" where
  "register_tool name func schema s =
     s\<lparr>tools := (tools s)(name \<mapsto> func), tool_schemas := tool_schemas s @ [schema]\<rparr>"

text \<open>
  \<open>_call_tool\<close>: an unknown name and an exception of the tool both become an error
  payload.
\<close>

definition call_tool :: "agent \<Rightarrow> string \<Rightarrow> jv \<Rightarrow> dumped" where
  "call_tool s name arguments =
     (case tools s name of
        None \<Rightarrow> Dumps True (JObj [(''error'', JStr (txt_unknown_tool @ name))])
      | Some func \<Rightarrow>
          (case func arguments of
             Inr result \<Rightarrow> Dumps False result
           | Inl e \<Rightarrow> Dumps True (JObj [(''error'', JStr e)])))"

subsection \<open>Conversation\<close>

text \<open>
  The \<open>for\<close> loop over the tool calls of one response. \<open>json.loads\<close> is applied to the
  argument text before \<open>_call_tool\<close> and outside its \<open>try\<close>: its exception leaves the
  loop and \<open>chat\<close>, with the agent as it is then.
\<close>

fun tool_calls_loop :: "agent \<Rightarrow> tool_call list \<Rightarrow> exn \<times> agent + agent" where
  "tool_calls_loop s [] = Inr s"
| "tool_calls_loop s (tc # rest) =
     (case tc_arguments tc of
        None \<Rightarrow> Inl (JSONDecodeError, s)
      | Some func_args \<Rightarrow>
          let s1 = s\<lparr>printed := printed s @ [(tc_name tc, func_args)]\<rparr>;
              result = call_tool s1 (tc_name tc) func_args
          in tool_calls_loop (s1\<lparr>messages := messages s1 @ [ToolMsg (tc_id tc) result]\<rparr>) rest)"

text \<open>
  The \<open>while\<close> loop of \<open>chat\<close>. \<open>llm\<close> is the language model: the message of its response
  to the transcript sent. The loop has no bound, so the result is \<open>None\<close> when the model
  never stops asking for tools.
\<close>

partial_function (option) chat_loop ::
  "(message list \<Rightarrow> assistant_message) \<Rightarrow> agent \<Rightarrow> assistant_message
     \<Rightarrow> (exn \<times> agent + agent \<times> assistant_message) option" where
  "chat_loop llm s assistant_message =
     (if tool_calls assistant_message \<noteq> []
      then (case tool_calls_loop (s\<lparr>messages := messages s @ [AssistantCalls assistant_message]\<rparr>)
                   (tool_calls assistant_message) of
              Inl e \<Rightarrow> Some (Inl e)
            | Inr s' \<Rightarrow> chat_loop llm s' (llm (messages s')))
      else Some (Inr (s, assistant_message)))"

text \<open>
  \<open>chat\<close>: the reply and the agent after it, or the exception that left it. \<open>now_iso\<close> is
  \<open>datetime.now().isoformat()\<close> at the end of the turn.
\<close>

definition chat ::
  "(message list \<Rightarrow> assistant_message) \<Rightarrow> string \<Rightarrow> string \<Rightarrow> agent
     \<Rightarrow> (exn \<times> agent + string option \<times> agent) option" where
  "chat llm now_iso user_message s =
     (let s0 = s\<lparr>messages := messages s @ [UserMsg user_message]\<rparr> in
      case chat_loop llm s0 (llm (messages s0)) of
        None \<Rightarrow> None
      | Some (Inl e) \<Rightarrow> Some (Inl e)
      | Some (Inr (s1, assistant_message)) \<Rightarrow>
          let s2 = s1\<lparr>messages := messages s1 @ [AssistantMsg (content assistant_message)]\<rparr>;
              s3 = s2\<lparr>memory := (memory s2)\<lparr>
                        conversation_count := conversation_count (memory s2) + 1,
                        last_conversation := Some now_iso\<rparr>\<rparr>
          in Some (Inr (content assistant_message, save_memory s3)))"

section \<open>Example inputs\<close>

text \<open>
  A new user's agent, made with a system prompt of its own: no stored file, the default
  document, no tool registered.
\<close>

definition new_agent :: agent where
  "new_agent =
     \<lparr>user_id = ''alice'', memory = default_memory ''alice'' ''2024-01-01T09:00:00'',
      messages = [SystemMsg ''You are Genos.''], tools = Map.empty, tool_schemas = [],
      files = Map.empty, printed = []\<rparr>"

section \<open>The prediction list as the specification words it\<close>

text \<open>
  These definitions follow the words of the specification and use none of the loops of
  the source; the loops are compared with them below.

  The record a resource contributes, if any. Its time is the arrival time; only when
  there is no arrival time is it the departure time. A resource with neither contributes
  nothing, and so does one whose time is before \<open>now\<close>.
\<close>

definition keep_prediction :: "int \<Rightarrow> pred_resource \<Rightarrow> prediction option" where
  "keep_prediction now pred =
     (case arrival_time pred of
        Some (Aware t) \<Rightarrow>
          if instant t < now then None else Some (normalize_prediction now pred t)
      | Some Naive \<Rightarrow> None
      | Some Malformed \<Rightarrow> None
      | None \<Rightarrow>
          (case departure_time pred of
             Some (Aware t) \<Rightarrow>
               if instant t < now then None else Some (normalize_prediction now pred t)
           | _ \<Rightarrow> None))"

definition future_predictions :: "int \<Rightarrow> pred_resource list \<Rightarrow> prediction list" where
  "future_predictions now data = List.map_filter (keep_prediction now) data"

text \<open>
  The time of a resource can be read when it is an aware timestamp or there is none:
  the arrival time, or the departure time when there is no arrival time.
\<close>

definition times_readable :: "pred_resource \<Rightarrow> bool" where
  "times_readable pred =
     (case arrival_time pred of
        Some (Aware t) \<Rightarrow> True
      | Some Naive \<Rightarrow> False
      | Some Malformed \<Rightarrow> False
      | None \<Rightarrow>
          (case departure_time pred of
             Some Naive \<Rightarrow> False
           | Some Malformed \<Rightarrow> False
           | _ \<Rightarrow> True))"

text \<open>
  The optional direction filter: with a non-empty argument, a record passes when the
  lowercased argument occurs in its lowercased direction name.
\<close>

definition direction_matches :: "string option \<Rightarrow> prediction \<Rightarrow> bool" where
  "direction_matches dir p =
     (case dir of
        None \<Rightarrow> True
      | Some d \<Rightarrow> d = [] \<or> sublist (lower d) (lower (direction p)))"

text \<open>The list to return: sorted by minutes, filtered by direction, at most ten.\<close>

definition expected_predictions ::
  "int \<Rightarrow> string option \<Rightarrow> pred_resource list \<Rightarrow> prediction list" where
  "expected_predictions now dir data =
     take 10 (filter (direction_matches dir) (sort_key minutes (future_predictions now data)))"

section \<open>A fixture for Harvard on the Red Line\<close>

text \<open>
  Two predictions at 09:00:00 UTC (04:00:00 in Boston): a train to Alewife arriving in
  three minutes, and one in the other direction with no arrival time, departing in seven.
\<close>

definition fixture_now :: int where
  "fixture_now = 1704099600000000"

definition alewife_pred :: pred_resource where
  "alewife_pred =
     \<lparr>arrival_time = Some (Aware \<lparr>instant = 1704099780000000, hour = 4, minute = 3, second = 0\<rparr>),
      departure_time = Some (Aware \<lparr>instant = 1704099840000000, hour = 4, minute = 4, second = 0\<rparr>),
      direction_id = Some 1, pr_status = Some JNull, route_data = Some ''Red''\<rparr>"

definition ashmont_pred :: pred_resource where
  "ashmont_pred =
     \<lparr>arrival_time = None,
      departure_time = Some (Aware \<lparr>instant = 1704100020000000, hour = 4, minute = 7, second = 0\<rparr>),
      direction_id = Some 0, pr_status = Some JNull, route_data = Some ''Red''\<rparr>"

definition harvard_response :: "pred_resource response" where
  "harvard_response = \<lparr>status_code = 200, body = Some [ashmont_pred, alewife_pred]\<rparr>"

definition alewife_prediction :: prediction where
  "alewife_prediction =
     \<lparr>route = ''Red'', direction = ''Alewife'', minutes = 3, time = ''04:03:00'', status = JNull\<rparr>"

definition ashmont_prediction :: prediction where
  "ashmont_prediction =
     \<lparr>route = ''Red'', direction = ''Ashmont/Braintree'', minutes = 7, time = ''04:07:00'',
      status = JNull\<rparr>"

text \<open>The same request when the API is unavailable.\<close>

definition failed_response :: "pred_resource response" where
  "failed_response = \<lparr>status_code = 503, body = None\<rparr>"

text \<open>Two responses to an alert request: 204 with no body, and 200 with no alert.\<close>

definition no_content_response :: "alert_resource response" where
  "no_content_response = \<lparr>status_code = 204, body = None\<rparr>"

definition no_alerts_response :: "alert_resource response" where
  "no_alerts_response = \<lparr>status_code = 200, body = Some []\<rparr>"

text \<open>
  A stop list with two platforms of Park Street.
\<close>

definition park_response :: "stop_resource response" where
  "park_response =
     \<lparr>status_code = 200,
      body = Some [\<lparr>sr_id = ''place-pktrm'', sr_name = ''Park Street''\<rparr>,
                   \<lparr>sr_id = ''70075'', sr_name = ''Park Street''\<rparr>,
                   \<lparr>sr_id = ''place-harsq'', sr_name = ''Harvard''\<rparr>]\<rparr>"

section \<open>Scripted conversations\<close>

text \<open>
  The agent with one tool registered, and a model that asks for that tool, then for a
  tool that is not registered, then answers. The model is scripted by the length of the
  transcript it is sent.
\<close>

definition stub_tool :: tool where
  "stub_tool arguments = Inr (JObj [(''has_data'', JBool False)])"

definition demo_agent :: agent where
  "demo_agent = register_tool ''get_next_train'' stub_tool JNull new_agent"




text \<open>A model whose tool call carries an argument text that is not JSON.\<close>

definition broken_call :: tool_call where
  "broken_call = \<lparr>tc_id = ''call_1'', tc_name = ''get_next_train'', tc_arguments = None\<rparr>"

definition broken_llm :: "message list \<Rightarrow> assistant_message" where
  "broken_llm transcript = \<lparr>content = None, tool_calls = [broken_call]\<rparr>"


section \<open>A fixture with records to drop\<close>

text \<open>
  The Harvard fixture with two more resources between its two: one with neither an
  arrival nor a departure time, and one that arrived a minute before \<open>fixture_now\<close>.
\<close>

definition no_time_pred :: pred_resource where
  "no_time_pred =
     \<lparr>arrival_time = None, departure_time = None,
      direction_id = Some 1, pr_status = Some JNull, route_data = Some ''Red''\<rparr>"

definition past_pred :: pred_resource where
  "past_pred =
     \<lparr>arrival_time = Some (Aware \<lparr>instant = 1704099540000000, hour = 3, minute = 59, second = 0\<rparr>),
      departure_time = Some (Aware \<lparr>instant = 1704099840000000, hour = 4, minute = 4, second = 0\<rparr>),
      direction_id = Some 1, pr_status = Some JNull, route_data = Some ''Red''\<rparr>"

definition mixed_data :: "pred_resource list" where
  "mixed_data = [ashmont_pred, no_time_pred, past_pred, alewife_pred]"

definition mixed_response :: "pred_resource response" where
  "mixed_response = \<lparr>status_code = 200, body = Some mixed_data\<rparr>"

text \<open>
  A returning user: the stored document, loaded as it is, holds a key beyond the seven
  and the same fact twice.
\<close>

definition stored_memory :: user_memory where
  "stored_memory =
     \<lparr>um_user_id = ''alice'', created_at = ''2024-01-01T09:00:00'',
      preferences = map (\<lambda>k. (k, JNull)) preference_keys @ [(''nickname'', JNull)],
      facts = [''lives in Cambridge'', ''lives in Cambridge''],
      conversation_count = 3, last_conversation = Some ''2024-01-20T18:30:00''\<rparr>"

definition returning_agent :: agent where
  "returning_agent =
     \<lparr>user_id = ''alice'', memory = stored_memory,
      messages = [SystemMsg ''You are Genos.''], tools = Map.empty, tool_schemas = [],
      files = [''memory/alice.json'' \<mapsto> stored_memory], printed = []\<rparr>"

text \<open>
  The sentence for the Alewife train of the fixture, in UTF-8, and a response with no
  prediction at all.
\<close>

definition alewife_sentence :: string where
  "alewife_sentence =
     ''Red '' @ [CHR 0xE7, CHR 0xBA, CHR 0xBF, CHR 0xE4, CHR 0xB8, CHR 0x8B, CHR 0xE4, CHR 0xB8,
                 CHR 0x80, CHR 0xE7, CHR 0x8F, CHR 0xAD, CHR 0xE8, CHR 0xBD, CHR 0xA6]
     @ '' 3 '' @ [CHR 0xE5, CHR 0x88, CHR 0x86, CHR 0xE9, CHR 0x92, CHR 0x9F, CHR 0xE5, CHR 0x90,
                  CHR 0x8E, CHR 0xE5, CHR 0x88, CHR 0xB0, CHR 0xE8, CHR 0xBE, CHR 0xBE, CHR 0xEF,
                  CHR 0xBC, CHR 0x8C, CHR 0xE6, CHR 0x96, CHR 0xB9, CHR 0xE5, CHR 0x90, CHR 0x91]
     @ '' Alewife''"

definition quiet_response :: "pred_resource response" where
  "quiet_response = \<lparr>status_code = 200, body = Some []\<rparr>"

section \<open>Preference store: properties\<close>

lemma map_fst_update_present:
  "k \<in> set (map fst d) \<Longrightarrow> map fst (AList.update k v d) = map fst d"
  by (induction d) auto

lemma wf_default_memory: "wf_memory (default_memory uid t)"
  by (simp add: wf_memory_def default_memory_def comp_def)

lemma wf_set_preference:
  "wf_memory (memory s) \<Longrightarrow> wf_memory (memory (snd (set_preference k v s)))"
  by (simp add: wf_memory_def set_preference_def save_memory_def has_key_def
        map_fst_update_present)

lemma wf_add_fact: "wf_memory (memory s) \<Longrightarrow> wf_memory (memory (add_fact f s))"
  by (simp add: wf_memory_def add_fact_def save_memory_def)

lemma returning_agent_loaded:
  "load_memory ''2024-02-01T08:00:00'' returning_agent = memory returning_agent"
  by (simp add: load_memory_def returning_agent_def get_memory_path_def path_join_def
        MEMORY_DIR_def)




lemma count_list_distinct:
  "distinct xs \<Longrightarrow> x \<in> set xs \<Longrightarrow> count_list xs x = 1"
  by (induction xs) (auto simp: count_list_0_iff)

lemma count_list_one_new: "x \<notin> set xs \<Longrightarrow> count_list (xs @ [x]) x = 1"
  by (simp add: count_list_0_iff)

lemma count_list_pos: "x \<in> set xs \<Longrightarrow> 1 \<le> count_list xs x"
  using count_list_0_iff [of xs x] by (cases "count_list xs x") auto

text \<open>
  C8 as the code has it. A second \<open>add_fact\<close> with the same text changes nothing: the
  agent, its document and the files are those after the first call. The first call
  appends the text when the list does not hold it and leaves the list as it is
  otherwise, so the text is in the list afterwards, and exactly once when the list held
  it at most once before; a list without duplicates stays so.
\<close>

theorem add_fact_idempotent:
  "add_fact txt (add_fact txt s) = add_fact txt s \<and>
   txt \<in> set (facts (memory (add_fact txt s))) \<and>
   facts (memory (add_fact txt s)) =
     (if txt \<in> set (facts (memory s)) then facts (memory s) else facts (memory s) @ [txt]) \<and>
   (count_list (facts (memory s)) txt \<le> 1 \<longrightarrow>
      count_list (facts (memory (add_fact txt (add_fact txt s)))) txt = 1) \<and>
   (distinct (facts (memory s)) \<longrightarrow>
      distinct (facts (memory (add_fact txt (add_fact txt s)))))"
proof (intro conjI impI)
  show idem: "add_fact txt (add_fact txt s) = add_fact txt s"
    by (simp add: add_fact_def save_memory_def)
  show "txt \<in> set (facts (memory (add_fact txt s)))"
    by (simp add: add_fact_def save_memory_def)
  show "facts (memory (add_fact txt s)) =
     (if txt \<in> set (facts (memory s)) then facts (memory s) else facts (memory s) @ [txt])"
    by (simp add: add_fact_def save_memory_def)
  show "count_list (facts (memory (add_fact txt (add_fact txt s)))) txt = 1"
    if "count_list (facts (memory s)) txt \<le> 1"
  proof (cases "txt \<in> set (facts (memory s))")
    case True
    then show ?thesis using that count_list_pos [OF True]
      by (simp add: idem add_fact_def)
  next
    case False
    then show ?thesis
      by (simp add: idem add_fact_def save_memory_def count_list_0_iff)
  qed
  show "distinct (facts (memory (add_fact txt (add_fact txt s))))"
    if "distinct (facts (memory s))"
    using that by (simp add: idem add_fact_def save_memory_def)
qed

text \<open>
  C8 as stated fails on a stored document that holds the text twice: both entries are
  still there after the two calls.
\<close>

theorem add_fact_duplicate_counterexample:
  "load_memory ''2024-02-01T08:00:00'' returning_agent = memory returning_agent \<and>
   facts (memory (add_fact ''lives in Cambridge'' (add_fact ''lives in Cambridge'' returning_agent)))
     = [''lives in Cambridge'', ''lives in Cambridge''] \<and>
   count_list
     (facts (memory (add_fact ''lives in Cambridge''
        (add_fact ''lives in Cambridge'' returning_agent))))
     ''lives in Cambridge'' = 2"
  using returning_agent_loaded
  by (simp add: add_fact_def returning_agent_def stored_memory_def)

theorem add_fact_idempotent_witness:
  "count_list (facts (memory (add_fact ''takes the Red Line'' new_agent))) ''lives in Cambridge'' \<le> 1 \<and>
   distinct (facts (memory (add_fact ''takes the Red Line'' new_agent))) \<and>
   facts (memory (add_fact ''lives in Cambridge''
     (add_fact ''lives in Cambridge'' (add_fact ''takes the Red Line'' new_agent))))
     = [''takes the Red Line'', ''lives in Cambridge''] \<and>
   count_list (facts (memory (add_fact ''lives in Cambridge''
     (add_fact ''lives in Cambridge'' (add_fact ''takes the Red Line'' new_agent)))))
     ''lives in Cambridge'' = 1 \<and>
   facts (memory (add_fact ''takes the Red Line''
     (add_fact ''takes the Red Line'' (add_fact ''takes the Red Line'' new_agent))))
     = [''takes the Red Line'']"
proof -
  define s where "s = add_fact ''takes the Red Line'' new_agent"
  have f: "facts (memory s) = [''takes the Red Line'']"
    by (simp add: s_def add_fact_def save_memory_def new_agent_def default_memory_def)
  have a: "count_list (facts (memory s)) ''lives in Cambridge'' \<le> 1" by (simp add: f)
  have b: "distinct (facts (memory s))" by (simp add: f)
  note L = add_fact_idempotent [of "''lives in Cambridge''" s]
  note R = add_fact_idempotent [of "''takes the Red Line''" s]
  from L have l1: "add_fact ''lives in Cambridge'' (add_fact ''lives in Cambridge'' s) =
      add_fact ''lives in Cambridge'' s"
    and l2: "facts (memory (add_fact ''lives in Cambridge'' s)) =
      (if ''lives in Cambridge'' \<in> set (facts (memory s)) then facts (memory s)
       else facts (memory s) @ [''lives in Cambridge''])"
    and l3: "count_list (facts (memory s)) ''lives in Cambridge'' \<le> 1 \<longrightarrow>
      count_list (facts (memory (add_fact ''lives in Cambridge''
        (add_fact ''lives in Cambridge'' s)))) ''lives in Cambridge'' = 1"
    by blast+
  from R have r1: "add_fact ''takes the Red Line'' (add_fact ''takes the Red Line'' s) =
      add_fact ''takes the Red Line'' s"
    and r2: "facts (memory (add_fact ''takes the Red Line'' s)) =
      (if ''takes the Red Line'' \<in> set (facts (memory s)) then facts (memory s)
       else facts (memory s) @ [''takes the Red Line''])"
    by blast+
  have c: "facts (memory (add_fact ''lives in Cambridge'' (add_fact ''lives in Cambridge'' s)))
      = [''takes the Red Line'', ''lives in Cambridge'']"
    unfolding l1 l2 by (simp add: f)
  have d: "count_list (facts (memory (add_fact ''lives in Cambridge''
        (add_fact ''lives in Cambridge'' s)))) ''lives in Cambridge'' = 1"
    using l3 a by blast
  have e: "facts (memory (add_fact ''takes the Red Line'' (add_fact ''takes the Red Line'' s)))
      = [''takes the Red Line'']"
    unfolding r1 r2 by (simp add: f)
  show ?thesis
    using a b c d e unfolding s_def by blast
qed

section \<open>Transit data client: properties\<close>

lemma get_predictions_Inr:
  assumes "get_predictions now resp stop_id route_id dir = Inr result"
  shows "(status_code resp \<noteq> 200 \<and>
            result = [(''error'', VStr (api_error (status_code resp))), (''stop_id'', VStr stop_id)]) \<or>
         (status_code resp = 200 \<and> body resp = Some [] \<and>
            result = [(''stop_id'', VStr stop_id), (''predictions'', VPredictions []),
                      (''message'', VStr txt_no_prediction_data)]) \<or>
         (status_code resp = 200 \<and>
            (\<exists>data ps. body resp = Some data \<and> data \<noteq> [] \<and>
               predictions_loop now data [] = Inr ps \<and>
               result = [(''stop_id'', VStr stop_id), (''route_filter'', opt_str route_id),
                         (''direction_filter'', opt_str dir),
                         (''predictions'',
                          VPredictions (take 10 (direction_filter dir (sort_key minutes ps))))]))"
  using assms
  by (auto simp: get_predictions_def split: if_splits option.splits sum.splits)

lemma get_predictions_error_iff:
  assumes "get_predictions now resp stop_id route_id dir = Inr result"
  shows "has_key result ''error'' \<longleftrightarrow> status_code resp \<noteq> 200"
  using get_predictions_Inr [OF assms] by (auto simp: has_key_def)

lemma get_predictions_no_has_data:
  assumes "get_predictions now resp stop_id route_id dir = Inr result"
  shows "\<not> has_key result ''has_data''"
  using get_predictions_Inr [OF assms] by (auto simp: has_key_def)

lemma getitem_predictions_ok:
  assumes "get_predictions now resp stop_id route_id dir = Inr result"
    and "\<not> has_key result ''error''"
  shows "\<exists>ps. getitem_predictions result = Inr ps \<and> map_of result ''predictions'' = Some (VPredictions ps)"
  using get_predictions_Inr [OF assms(1)] assms(2)
  by (auto simp: has_key_def getitem_predictions_def)

text \<open>
  C10. When \<open>get_predictions\<close> returns an error result, which it does exactly for a
  status other than 200, \<open>get_next_train\<close> and \<open>get_both_directions\<close> return that
  dict unchanged; it has the key \<open>error\<close> and no key \<open>has_data\<close>.
\<close>

theorem wrappers_pass_error_result:
  "(\<forall>result. get_predictions now resp stop_id route_id dir = Inr result \<and> has_key result ''error''
       \<longrightarrow> get_next_train now resp stop_id route_id dir = Inr result \<and>
           \<not> has_key result ''has_data'' \<and> status_code resp \<noteq> 200) \<and>
   (\<forall>result. get_predictions now resp stop_id (Some rid) None = Inr result \<and> has_key result ''error''
       \<longrightarrow> get_both_directions now resp stop_id rid = Inr result \<and>
           \<not> has_key result ''has_data'' \<and> status_code resp \<noteq> 200)"
  by (auto simp: get_next_train_def get_both_directions_def get_predictions_no_has_data
        get_predictions_error_iff)

lemma keep_prediction_arrival_str:
  "keep_prediction now pred =
     (case arrival_str pred of
        Some (Aware t) \<Rightarrow>
          if instant t < now then None else Some (normalize_prediction now pred t)
      | _ \<Rightarrow> None)"
  by (simp add: keep_prediction_def arrival_str_def split: option.splits timestr.splits)

lemma times_readable_arrival_str:
  "times_readable pred \<longleftrightarrow> arrival_str pred \<noteq> Some Naive \<and> arrival_str pred \<noteq> Some Malformed"
  by (simp add: times_readable_def arrival_str_def split: option.splits timestr.splits)

lemma future_predictions_Cons:
  "future_predictions now (pred # rest) =
     (case keep_prediction now pred of None \<Rightarrow> [] | Some p \<Rightarrow> [p]) @ future_predictions now rest"
  by (simp add: future_predictions_def map_filter_simps split: option.splits)

lemma predictions_loop_Inr:
  "predictions_loop now data acc = Inr ps \<Longrightarrow> ps = acc @ future_predictions now data"
proof (induction data arbitrary: acc)
  case Nil
  then show ?case by (simp add: future_predictions_def map_filter_simps)
next
  case (Cons pred rest)
  from Cons.prems show ?case
    unfolding future_predictions_Cons keep_prediction_arrival_str
    by (auto dest!: Cons.IH split: option.splits timestr.splits if_splits)
qed

lemma predictions_loop_readable:
  "\<forall>pred \<in> set data. times_readable pred \<Longrightarrow>
     predictions_loop now data acc = Inr (acc @ future_predictions now data)"
proof (induction data arbitrary: acc)
  case Nil
  show ?case by (simp add: future_predictions_def map_filter_simps)
next
  case (Cons pred rest)
  then have r: "arrival_str pred \<noteq> Some Naive" "arrival_str pred \<noteq> Some Malformed"
    and ih: "\<And>acc. predictions_loop now rest acc = Inr (acc @ future_predictions now rest)"
    by (simp_all add: times_readable_arrival_str)
  show ?case
    unfolding future_predictions_Cons keep_prediction_arrival_str
    using r by (auto simp: ih split: option.splits timestr.splits)
qed

lemma direction_filter_eq: "direction_filter dir ps = filter (direction_matches dir) ps"
proof (cases dir)
  case None
  then show ?thesis by (simp add: direction_filter_def direction_matches_def)
next
  case (Some d)
  then show ?thesis
    by (cases "d = []") (simp_all add: direction_filter_def direction_matches_def [abs_def])
qed

lemma py_round_div_nonneg: "0 \<le> n \<Longrightarrow> 0 < d \<Longrightarrow> 0 \<le> py_round_div n d"
  by (auto simp: py_round_div_def Let_def pos_imp_zdiv_nonneg_iff intro: add_nonneg_nonneg)

lemma py_round_div_nearest:
  assumes "0 < d"
  shows "\<bar>2 * (d * py_round_div n d - n)\<bar> \<le> d"
proof -
  define q r where "q = n div d" and "r = n mod d"
  have n: "n = d * q + r" by (simp add: q_def r_def)
  have r: "0 \<le> r" "r < d" using assms by (simp_all add: r_def)
  have "py_round_div n d = (if 2 * r < d then q else if d < 2 * r then q + 1
                              else if even q then q else q + 1)"
    by (simp add: py_round_div_def Let_def q_def r_def)
  then show ?thesis using n r by (auto simp: algebra_simps)
qed

lemma keep_prediction_Some:
  "keep_prediction now pred = Some p \<longleftrightarrow>
     (\<exists>t. (arrival_time pred = Some (Aware t) \<or>
           arrival_time pred = None \<and> departure_time pred = Some (Aware t)) \<and>
          now \<le> instant t \<and> p = normalize_prediction now pred t)"
  by (auto simp: keep_prediction_def split: option.splits timestr.splits)

lemma set_future_predictions:
  "p \<in> set (future_predictions now data) \<longleftrightarrow>
     (\<exists>pred \<in> set data. keep_prediction now pred = Some p)"
proof (induction data)
  case Nil
  show ?case by (simp add: future_predictions_def map_filter_simps)
next
  case (Cons pred rest)
  then show ?case by (auto simp: future_predictions_Cons split: option.splits)
qed

lemma minutes_normalize_prediction:
  "minutes (normalize_prediction now pred t) = wait_minutes now (instant t)"
  by (simp add: normalize_prediction_def Let_def)

lemma future_predictions_origin:
  assumes "p \<in> set (future_predictions now data)"
  shows "\<exists>pred t. pred \<in> set data \<and>
           (arrival_time pred = Some (Aware t) \<or>
            arrival_time pred = None \<and> departure_time pred = Some (Aware t)) \<and>
           now \<le> instant t \<and> p = normalize_prediction now pred t \<and> 0 \<le> minutes p"
proof -
  from assms obtain pred t where pt: "pred \<in> set data"
      "arrival_time pred = Some (Aware t) \<or>
       arrival_time pred = None \<and> departure_time pred = Some (Aware t)"
      "now \<le> instant t" "p = normalize_prediction now pred t"
    unfolding set_future_predictions keep_prediction_Some by blast
  have "0 \<le> minutes p"
    using pt(3,4) by (simp add: minutes_normalize_prediction wait_minutes_def py_round_div_nonneg)
  with pt show ?thesis by blast
qed

lemma future_predictions_nearest_minute:
  "\<bar>2 * (60000000 * minutes (normalize_prediction now pred t) - (instant t - now))\<bar> \<le> 60000000"
  unfolding minutes_normalize_prediction wait_minutes_def
  using py_round_div_nearest [of 60000000 "instant t - now"] by simp

lemma sorted_direction_filter:
  "sorted (map minutes ps) \<Longrightarrow> sorted (map minutes (direction_filter dir ps))"
  by (auto simp: direction_filter_def sorted_filter split: option.splits)

lemma set_direction_filter: "set (direction_filter dir ps) \<subseteq> set ps"
  by (auto simp: direction_filter_def split: option.splits)

lemma direction_filter_matches:
  "dir = Some d \<Longrightarrow> d \<noteq> [] \<Longrightarrow> p \<in> set (direction_filter dir ps) \<Longrightarrow>
     sublist (lower d) (lower (direction p))"
  by (auto simp: direction_filter_def)

lemma sorted_returned:
  "sorted (map minutes (take n (direction_filter dir (sort_key minutes ps))))"
proof -
  have "sorted (map minutes (direction_filter dir (sort_key minutes ps)))"
    by (rule sorted_direction_filter) simp
  then show ?thesis by (simp add: take_map [symmetric] sorted_wrt_take)
qed

lemma expected_predictions_eq:
  "expected_predictions now dir data =
     take 10 (direction_filter dir (sort_key minutes (future_predictions now data)))"
  by (simp add: expected_predictions_def direction_filter_eq)

lemma fixture_loop:
  "predictions_loop fixture_now [ashmont_pred, alewife_pred] [] = Inr [ashmont_prediction, alewife_prediction]"
  by code_simp

lemma fixture_predictions:
  "get_predictions fixture_now harvard_response ''place-harsq'' (Some ''Red'') None =
     Inr [(''stop_id'', VStr ''place-harsq''), (''route_filter'', VStr ''Red''),
          (''direction_filter'', VNone),
          (''predictions'', VPredictions [alewife_prediction, ashmont_prediction])]"
  by code_simp

lemma returned_predictions:
  assumes "get_predictions now resp stop_id route_id dir = Inr result"
    and "\<not> has_key result ''error''"
  shows "\<exists>data. body resp = Some data \<and>
           map_of result ''predictions'' =
             Some (VPredictions (take 10 (direction_filter dir
                     (sort_key minutes (future_predictions now data)))))"
  using get_predictions_Inr [OF assms(1)] assms(2)
proof (elim disjE conjE exE)
  assume "result = [(''error'', VStr (api_error (status_code resp))), (''stop_id'', VStr stop_id)]"
  with assms(2) show ?thesis by (simp add: has_key_def)
next
  assume "body resp = Some []"
    "result = [(''stop_id'', VStr stop_id), (''predictions'', VPredictions []),
               (''message'', VStr txt_no_prediction_data)]"
  then show ?thesis
    by (simp add: future_predictions_def map_filter_simps direction_filter_def split: option.splits)
next
  fix data ps
  assume "body resp = Some data" "predictions_loop now data [] = Inr ps"
    "result = [(''stop_id'', VStr stop_id), (''route_filter'', opt_str route_id),
               (''direction_filter'', opt_str dir),
               (''predictions'',
                VPredictions (take 10 (direction_filter dir (sort_key minutes ps))))]"
  then show ?thesis using predictions_loop_Inr [of now data "[]" ps] by simp
qed

lemma get_predictions_returns:
  assumes "status_code resp = 200" and "body resp = Some data"
    and "\<forall>pred \<in> set data. times_readable pred"
  shows "\<exists>result. get_predictions now resp stop_id route_id dir = Inr result \<and>
           \<not> has_key result ''error'' \<and>
           map_of result ''predictions'' = Some (VPredictions (expected_predictions now dir data))"
proof (cases "data = []")
  case True
  then show ?thesis using assms(1,2)
    by (simp add: get_predictions_def has_key_def expected_predictions_def
          future_predictions_def map_filter_simps)
next
  case False
  then show ?thesis
    using assms(1,2) predictions_loop_readable [OF assms(3), of now "[]"]
    by (simp add: get_predictions_def has_key_def expected_predictions_eq)
qed

text \<open>
  C2. A call of \<open>get_predictions\<close> that returns without \<open>error\<close> returns the list the
  specification words: the records of the resources, each computed from the arrival
  time, or from the departure time when there is no arrival time, those with neither
  time or with a time before \<open>now\<close> left out, sorted by minutes, filtered by direction and
  cut to ten. The call does return so whenever the status is 200, the body is JSON and
  every time it reads is an aware timestamp; a resource with no time does not make it
  fail. The list is non-decreasing in minutes and has at most ten entries; each entry
  passes the direction filter and is the record of a resource whose time is not before
  \<open>now\<close>, its minutes being the wait rounded to the nearest minute; and every resource
  with such a time has its record among the candidates.
\<close>

theorem get_predictions_list:
  "(\<forall>result. get_predictions now resp stop_id route_id dir = Inr result \<and>
        \<not> has_key result ''error'' \<longrightarrow>
      (\<exists>data. body resp = Some data \<and>
         map_of result ''predictions'' =
           Some (VPredictions (expected_predictions now dir data)))) \<and>
   (\<forall>data. status_code resp = 200 \<and> body resp = Some data \<and>
        (\<forall>pred \<in> set data. times_readable pred) \<longrightarrow>
      (\<exists>result. get_predictions now resp stop_id route_id dir = Inr result \<and>
         \<not> has_key result ''error'' \<and>
         map_of result ''predictions'' =
           Some (VPredictions (expected_predictions now dir data)))) \<and>
   (\<forall>data.
      sorted (map minutes (expected_predictions now dir data)) \<and>
      length (expected_predictions now dir data) \<le> 10 \<and>
      (\<forall>p \<in> set (expected_predictions now dir data).
         (\<forall>d. dir = Some d \<and> d \<noteq> [] \<longrightarrow> sublist (lower d) (lower (direction p))) \<and>
         (\<exists>pred t. pred \<in> set data \<and>
            (arrival_time pred = Some (Aware t) \<or>
             arrival_time pred = None \<and> departure_time pred = Some (Aware t)) \<and>
            now \<le> instant t \<and> p = normalize_prediction now pred t \<and>
            0 \<le> minutes p \<and>
            \<bar>2 * (60000000 * minutes p - (instant t - now))\<bar> \<le> 60000000)) \<and>
      (\<forall>pred t. pred \<in> set data \<and>
           (arrival_time pred = Some (Aware t) \<or>
            arrival_time pred = None \<and> departure_time pred = Some (Aware t)) \<and>
           now \<le> instant t \<longrightarrow>
         normalize_prediction now pred t \<in> set (future_predictions now data)) \<and>
      (\<forall>pred \<in> set data. arrival_time pred = None \<and> departure_time pred = None \<longrightarrow>
         keep_prediction now pred = None))"
proof (intro conjI allI impI)
  fix result
  assume "get_predictions now resp stop_id route_id dir = Inr result \<and> \<not> has_key result ''error''"
  then show "\<exists>data. body resp = Some data \<and>
         map_of result ''predictions'' = Some (VPredictions (expected_predictions now dir data))"
    using returned_predictions [of now resp stop_id route_id dir result]
    by (simp add: expected_predictions_eq)
next
  fix data
  assume "status_code resp = 200 \<and> body resp = Some data \<and>
        (\<forall>pred \<in> set data. times_readable pred)"
  then show "\<exists>result. get_predictions now resp stop_id route_id dir = Inr result \<and>
         \<not> has_key result ''error'' \<and>
         map_of result ''predictions'' = Some (VPredictions (expected_predictions now dir data))"
    using get_predictions_returns [of resp data now stop_id route_id dir] by blast
next
  fix data
  show "sorted (map minutes (expected_predictions now dir data))"
    unfolding expected_predictions_eq by (rule sorted_returned)
  show "length (expected_predictions now dir data) \<le> 10"
    by (simp add: expected_predictions_def)
  show "\<forall>p \<in> set (expected_predictions now dir data).
         (\<forall>d. dir = Some d \<and> d \<noteq> [] \<longrightarrow> sublist (lower d) (lower (direction p))) \<and>
         (\<exists>pred t. pred \<in> set data \<and>
            (arrival_time pred = Some (Aware t) \<or>
             arrival_time pred = None \<and> departure_time pred = Some (Aware t)) \<and>
            now \<le> instant t \<and> p = normalize_prediction now pred t \<and>
            0 \<le> minutes p \<and>
            \<bar>2 * (60000000 * minutes p - (instant t - now))\<bar> \<le> 60000000)"
  proof
    fix p
    assume "p \<in> set (expected_predictions now dir data)"
    then have m: "direction_matches dir p" and f: "p \<in> set (future_predictions now data)"
      by (auto simp: expected_predictions_def dest!: in_set_takeD)
    from m have a: "\<forall>d. dir = Some d \<and> d \<noteq> [] \<longrightarrow> sublist (lower d) (lower (direction p))"
      by (auto simp: direction_matches_def)
    from future_predictions_origin [OF f] obtain pred t where
      o: "pred \<in> set data"
        "arrival_time pred = Some (Aware t) \<or>
         arrival_time pred = None \<and> departure_time pred = Some (Aware t)"
        "now \<le> instant t" "p = normalize_prediction now pred t" "0 \<le> minutes p"
      by blast
    have "\<bar>2 * (60000000 * minutes p - (instant t - now))\<bar> \<le> 60000000"
      unfolding o(4) by (rule future_predictions_nearest_minute)
    with a o show "(\<forall>d. dir = Some d \<and> d \<noteq> [] \<longrightarrow> sublist (lower d) (lower (direction p))) \<and>
         (\<exists>pred t. pred \<in> set data \<and>
            (arrival_time pred = Some (Aware t) \<or>
             arrival_time pred = None \<and> departure_time pred = Some (Aware t)) \<and>
            now \<le> instant t \<and> p = normalize_prediction now pred t \<and>
            0 \<le> minutes p \<and>
            \<bar>2 * (60000000 * minutes p - (instant t - now))\<bar> \<le> 60000000)"
      by blast
  qed
next
  fix data :: "pred_resource list" and pred :: pred_resource and t
  assume "pred \<in> set data \<and>
           (arrival_time pred = Some (Aware t) \<or>
            arrival_time pred = None \<and> departure_time pred = Some (Aware t)) \<and>
           now \<le> instant t"
  then show "normalize_prediction now pred t \<in> set (future_predictions now data)"
    unfolding set_future_predictions keep_prediction_Some by blast
next
  fix data :: "pred_resource list"
  show "\<forall>pred \<in> set data. arrival_time pred = None \<and> departure_time pred = None \<longrightarrow>
         keep_prediction now pred = None"
    by (simp add: keep_prediction_def)
qed

lemma mixed_readable:
  "times_readable ashmont_pred" "times_readable no_time_pred"
  "times_readable past_pred" "times_readable alewife_pred"
  by (simp_all add: times_readable_def ashmont_pred_def no_time_pred_def past_pred_def
        alewife_pred_def)

lemma mixed_expected:
  "expected_predictions fixture_now None mixed_data = [alewife_prediction, ashmont_prediction]"
  by code_simp

lemma mixed_expected_filtered:
  "expected_predictions fixture_now (Some ''ALE'') mixed_data = [alewife_prediction]"
  by code_simp

lemma mixed_predictions:
  "get_predictions fixture_now mixed_response ''place-harsq'' (Some ''Red'') None =
     Inr [(''stop_id'', VStr ''place-harsq''), (''route_filter'', VStr ''Red''),
          (''direction_filter'', VNone),
          (''predictions'', VPredictions [alewife_prediction, ashmont_prediction])]"
  by code_simp

lemma mixed_predictions_filtered:
  "get_predictions fixture_now mixed_response ''place-harsq'' (Some ''Red'') (Some ''ALE'') =
     Inr [(''stop_id'', VStr ''place-harsq''), (''route_filter'', VStr ''Red''),
          (''direction_filter'', VStr ''ALE''),
          (''predictions'', VPredictions [alewife_prediction])]"
  by code_simp

theorem get_predictions_list_witness:
  "status_code mixed_response = 200 \<and> body mixed_response = Some mixed_data \<and>
   times_readable ashmont_pred \<and> times_readable no_time_pred \<and>
   times_readable past_pred \<and> times_readable alewife_pred \<and>
   get_predictions fixture_now mixed_response ''place-harsq'' (Some ''Red'') None =
     Inr [(''stop_id'', VStr ''place-harsq''), (''route_filter'', VStr ''Red''),
          (''direction_filter'', VNone),
          (''predictions'', VPredictions [alewife_prediction, ashmont_prediction])] \<and>
   get_predictions fixture_now mixed_response ''place-harsq'' (Some ''Red'') (Some ''ALE'') =
     Inr [(''stop_id'', VStr ''place-harsq''), (''route_filter'', VStr ''Red''),
          (''direction_filter'', VStr ''ALE''),
          (''predictions'', VPredictions [alewife_prediction])] \<and>
   expected_predictions fixture_now None mixed_data = [alewife_prediction, ashmont_prediction] \<and>
   sorted (map minutes [alewife_prediction, ashmont_prediction]) \<and>
   sublist (lower ''ALE'') (lower (direction alewife_prediction))"
proof -
  have st: "status_code mixed_response = 200" and bd: "body mixed_response = Some mixed_data"
    by (simp_all add: mixed_response_def)
  have rd: "\<forall>pred \<in> set mixed_data. times_readable pred"
    using mixed_readable by (simp add: mixed_data_def)
  note T = get_predictions_list [of fixture_now mixed_response "''place-harsq''" "Some ''Red''" None]
  note F = get_predictions_list [of fixture_now mixed_response "''place-harsq''" "Some ''Red''"
      "Some ''ALE''"]
  from T [THEN conjunct2, THEN conjunct1, rule_format, OF conjI [OF st conjI [OF bd rd]]]
  obtain result where
    r: "get_predictions fixture_now mixed_response ''place-harsq'' (Some ''Red'') None = Inr result"
       "map_of result ''predictions'' =
          Some (VPredictions (expected_predictions fixture_now None mixed_data))"
    by (elim exE conjE)
  from r(1) have "Inr result =
      get_predictions fixture_now mixed_response ''place-harsq'' (Some ''Red'') None"
    by (rule sym)
  then have "map_of result ''predictions'' =
      Some (VPredictions [alewife_prediction, ashmont_prediction])"
    unfolding mixed_predictions by auto
  with r(2) have e: "expected_predictions fixture_now None mixed_data =
      [alewife_prediction, ashmont_prediction]"
    by simp
  from T [THEN conjunct2, THEN conjunct2, rule_format, of mixed_data]
  have "sorted (map minutes (expected_predictions fixture_now None mixed_data))"
    by (elim conjE)
  then have s: "sorted (map minutes [alewife_prediction, ashmont_prediction])"
    unfolding e .
  from F [THEN conjunct2, THEN conjunct2, rule_format, of mixed_data]
  have "\<forall>p \<in> set (expected_predictions fixture_now (Some ''ALE'') mixed_data).
         (\<forall>d. Some ''ALE'' = Some d \<and> d \<noteq> [] \<longrightarrow> sublist (lower d) (lower (direction p)))"
    by blast
  then have m: "sublist (lower ''ALE'') (lower (direction alewife_prediction))"
    unfolding mixed_expected_filtered by simp
  show ?thesis
    by (intro conjI) (rule st, rule bd, rule mixed_readable, rule mixed_readable,
        rule mixed_readable, rule mixed_readable, rule mixed_predictions,
        rule mixed_predictions_filtered, rule e, rule s, rule m)
qed

lemma sorted_hd_least:
  "sorted (map f xs) \<Longrightarrow> x \<in> set xs \<Longrightarrow> f (hd xs) \<le> f x"
  by (cases xs) auto

lemma sublist_first: "sublist xs (xs @ ys)"
  using sublist_appendI [of xs "[]" ys] by simp

lemma sublist_last: "sublist xs (ys @ xs)"
  using sublist_appendI [of xs ys "[]"] by simp

lemma txt_nonempty: "txt_no_train_data \<noteq> []" "txt_next_train \<noteq> []"
  by (simp_all add: txt_no_train_data_def txt_next_train_def)

text \<open>
  C1. When \<open>get_predictions\<close> returns a result without \<open>error\<close>, \<open>get_next_train\<close>
  returns a dict with a boolean under \<open>has_data\<close> and a non-empty message. \<open>has_data\<close>
  is \<open>False\<close> exactly when the prediction list is empty, and the message is then the
  diagnostic text; otherwise \<open>has_data\<close> is \<open>True\<close> and the dict holds the route,
  direction, minutes and time of the first prediction, whose minutes are the least of
  the list, and the sentence made of its route, its wait (arriving, one minute, or the
  number of minutes) and its direction.
\<close>

theorem get_next_train_has_data:
  assumes "get_predictions now resp stop_id route_id dir = Inr result"
    and "\<not> has_key result ''error''"
  shows "\<exists>ps out.
           map_of result ''predictions'' = Some (VPredictions ps) \<and>
           get_next_train now resp stop_id route_id dir = Inr out \<and>
           \<not> has_key out ''error'' \<and>
           (\<exists>b. map_of out ''has_data'' = Some (VBool b)) \<and>
           (\<exists>m. map_of out ''message'' = Some (VStr m) \<and> m \<noteq> []) \<and>
           (map_of out ''has_data'' = Some (VBool False) \<longleftrightarrow> ps = []) \<and>
           (ps = [] \<longrightarrow> map_of out ''message'' = Some (VStr txt_no_train_data)) \<and>
           (ps \<noteq> [] \<longrightarrow>
              map_of out ''has_data'' = Some (VBool True) \<and>
              map_of out ''route'' = Some (VStr (route (hd ps))) \<and>
              map_of out ''direction'' = Some (VStr (direction (hd ps))) \<and>
              map_of out ''minutes'' = Some (VInt (minutes (hd ps))) \<and>
              map_of out ''time'' = Some (VStr (time (hd ps))) \<and>
              map_of out ''message'' =
                Some (VStr (route (hd ps) @ txt_next_train
                   @ (if minutes (hd ps) < 1 then txt_arriving
                      else if minutes (hd ps) = 1 then txt_one_minute
                      else str_int (minutes (hd ps)) @ txt_minutes_arrive)
                   @ txt_towards @ direction (hd ps))) \<and>
              (\<exists>m. map_of out ''message'' = Some (VStr m) \<and>
                   sublist (route (hd ps)) m \<and> sublist (direction (hd ps)) m) \<and>
              (\<forall>p \<in> set ps. minutes (hd ps) \<le> minutes p))"
proof -
  from returned_predictions [OF assms] obtain data where
    data: "map_of result ''predictions'' =
         Some (VPredictions (take 10 (direction_filter dir
                 (sort_key minutes (future_predictions now data)))))"
    by blast
  define ps where "ps = take 10 (direction_filter dir (sort_key minutes (future_predictions now data)))"
  have res: "map_of result ''predictions'' = Some (VPredictions ps)"
    using data ps_def by simp
  then have get: "getitem_predictions result = Inr ps"
    by (simp add: getitem_predictions_def)
  have "sorted (map minutes ps)" unfolding ps_def by (rule sorted_returned)
  then have least: "\<forall>p \<in> set ps. minutes (hd ps) \<le> minutes p"
    by (auto intro: sorted_hd_least)
  show ?thesis
  proof (cases ps)
    case Nil
    then show ?thesis using assms res get txt_nonempty(1)
      by (auto simp: get_next_train_def has_key_def)
  next
    case (Cons p rest)
    define m where "m = route p @ txt_next_train
                   @ (if minutes p < 1 then txt_arriving
                      else if minutes p = 1 then txt_one_minute
                      else str_int (minutes p) @ txt_minutes_arrive)
                   @ txt_towards @ direction p"
    define out where "out = [(''stop_id'', VStr stop_id), (''route'', VStr (route p)),
        (''direction'', VStr (direction p)), (''minutes'', VInt (minutes p)),
        (''time'', VStr (time p)), (''has_data'', VBool True), (''message'', VStr m)]"
    have run: "get_next_train now resp stop_id route_id dir = Inr out"
      using assms get Cons by (simp add: get_next_train_def Let_def out_def m_def)
    have ne: "m \<noteq> []" using txt_nonempty(2) by (simp add: m_def)
    have sr: "sublist (route p) m" unfolding m_def by (rule sublist_first)
    have "m = (route p @ txt_next_train
                   @ (if minutes p < 1 then txt_arriving
                      else if minutes p = 1 then txt_one_minute
                      else str_int (minutes p) @ txt_minutes_arrive)
                   @ txt_towards) @ direction p"
      by (simp add: m_def)
    then have sd: "sublist (direction p) m" by (simp only: sublist_last)
    have hd: "hd ps = p" and nonempty: "ps \<noteq> []" using Cons by simp_all
    have keys: "\<not> has_key out ''error''" "map_of out ''has_data'' = Some (VBool True)"
      "map_of out ''route'' = Some (VStr (route p))"
      "map_of out ''direction'' = Some (VStr (direction p))"
      "map_of out ''minutes'' = Some (VInt (minutes p))"
      "map_of out ''time'' = Some (VStr (time p))"
      "map_of out ''message'' = Some (VStr m)"
      by (simp_all add: out_def has_key_def)
    show ?thesis
      apply (rule exI [of _ ps], rule exI [of _ out])
      using res run keys ne sr sd least nonempty
      unfolding hd m_def [symmetric]
      by auto
  qed
qed

lemma fixture_next_train:
  "get_next_train fixture_now harvard_response ''place-harsq'' (Some ''Red'') None =
     Inr [(''stop_id'', VStr ''place-harsq''), (''route'', VStr ''Red''),
          (''direction'', VStr ''Alewife''), (''minutes'', VInt 3),
          (''time'', VStr ''04:03:00''), (''has_data'', VBool True),
          (''message'', VStr alewife_sentence)]"
  by code_simp

lemma quiet_predictions:
  "get_predictions fixture_now quiet_response ''place-harsq'' (Some ''Red'') None =
     Inr [(''stop_id'', VStr ''place-harsq''), (''predictions'', VPredictions []),
          (''message'', VStr txt_no_prediction_data)]"
  by (simp add: get_predictions_def quiet_response_def)

lemma quiet_next_train:
  "get_next_train fixture_now quiet_response ''place-harsq'' (Some ''Red'') None =
     Inr [(''stop_id'', VStr ''place-harsq''), (''route_filter'', VStr ''Red''),
          (''direction_filter'', VNone), (''has_data'', VBool False),
          (''predictions'', VPredictions []), (''message'', VStr txt_no_train_data)]"
  by (simp add: get_next_train_def quiet_predictions has_key_def getitem_predictions_def
        opt_str_def)

theorem get_next_train_has_data_witness:
  "get_predictions fixture_now harvard_response ''place-harsq'' (Some ''Red'') None =
     Inr [(''stop_id'', VStr ''place-harsq''), (''route_filter'', VStr ''Red''),
          (''direction_filter'', VNone),
          (''predictions'', VPredictions [alewife_prediction, ashmont_prediction])] \<and>
   \<not> has_key [(''stop_id'', VStr ''place-harsq''), (''route_filter'', VStr ''Red''),
          (''direction_filter'', VNone),
          (''predictions'', VPredictions [alewife_prediction, ashmont_prediction])] ''error'' \<and>
   get_next_train fixture_now harvard_response ''place-harsq'' (Some ''Red'') None =
     Inr [(''stop_id'', VStr ''place-harsq''), (''route'', VStr ''Red''),
          (''direction'', VStr ''Alewife''), (''minutes'', VInt 3),
          (''time'', VStr ''04:03:00''), (''has_data'', VBool True),
          (''message'', VStr alewife_sentence)] \<and>
   sublist ''Alewife'' alewife_sentence \<and>
   get_next_train fixture_now quiet_response ''place-harsq'' (Some ''Red'') None =
     Inr [(''stop_id'', VStr ''place-harsq''), (''route_filter'', VStr ''Red''),
          (''direction_filter'', VNone), (''has_data'', VBool False),
          (''predictions'', VPredictions []), (''message'', VStr txt_no_train_data)] \<and>
   txt_no_train_data \<noteq> []"
proof -
  let ?r = "[(''stop_id'', VStr ''place-harsq''), (''route_filter'', VStr ''Red''),
          (''direction_filter'', VNone),
          (''predictions'', VPredictions [alewife_prediction, ashmont_prediction])]"
  let ?q = "[(''stop_id'', VStr ''place-harsq''), (''predictions'', VPredictions []),
          (''message'', VStr txt_no_prediction_data)]"
  have a: "get_predictions fixture_now harvard_response ''place-harsq'' (Some ''Red'') None = Inr ?r"
    by (rule fixture_predictions)
  have b: "\<not> has_key ?r ''error''" by (simp add: has_key_def)
  from get_next_train_has_data [OF a b] obtain ps out where
    o: "map_of ?r ''predictions'' = Some (VPredictions ps)"
       "get_next_train fixture_now harvard_response ''place-harsq'' (Some ''Red'') None = Inr out"
       "ps \<noteq> [] \<longrightarrow>
              map_of out ''has_data'' = Some (VBool True) \<and>
              map_of out ''route'' = Some (VStr (route (hd ps))) \<and>
              map_of out ''direction'' = Some (VStr (direction (hd ps))) \<and>
              map_of out ''minutes'' = Some (VInt (minutes (hd ps))) \<and>
              map_of out ''time'' = Some (VStr (time (hd ps))) \<and>
              map_of out ''message'' =
                Some (VStr (route (hd ps) @ txt_next_train
                   @ (if minutes (hd ps) < 1 then txt_arriving
                      else if minutes (hd ps) = 1 then txt_one_minute
                      else str_int (minutes (hd ps)) @ txt_minutes_arrive)
                   @ txt_towards @ direction (hd ps))) \<and>
              (\<exists>m. map_of out ''message'' = Some (VStr m) \<and>
                   sublist (route (hd ps)) m \<and> sublist (direction (hd ps)) m) \<and>
              (\<forall>p \<in> set ps. minutes (hd ps) \<le> minutes p)"
    by (elim exE conjE)
  from o(1) have ps: "ps = [alewife_prediction, ashmont_prediction]" by simp
  from o(2) have out: "out = [(''stop_id'', VStr ''place-harsq''), (''route'', VStr ''Red''),
          (''direction'', VStr ''Alewife''), (''minutes'', VInt 3),
          (''time'', VStr ''04:03:00''), (''has_data'', VBool True),
          (''message'', VStr alewife_sentence)]"
    unfolding fixture_next_train by simp
  from o(3) have "\<exists>m. map_of out ''message'' = Some (VStr m) \<and>
       sublist (direction (hd ps)) m"
    unfolding ps by auto
  then have c: "sublist ''Alewife'' alewife_sentence"
    unfolding out ps by (simp add: alewife_prediction_def)
  have q: "get_predictions fixture_now quiet_response ''place-harsq'' (Some ''Red'') None = Inr ?q"
    by (rule quiet_predictions)
  have qb: "\<not> has_key ?q ''error''" by (simp add: has_key_def)
  from get_next_train_has_data [OF q qb] obtain qs qout where
    e: "map_of ?q ''predictions'' = Some (VPredictions qs)"
       "\<exists>m. map_of qout ''message'' = Some (VStr m) \<and> m \<noteq> []"
       "qs = [] \<longrightarrow> map_of qout ''message'' = Some (VStr txt_no_train_data)"
    by blast
  from e(1) have "qs = []" by simp
  with e(2,3) have d: "txt_no_train_data \<noteq> []" by auto
  show ?thesis
    by (intro conjI) (rule a, rule b, rule fixture_next_train, rule c, rule quiet_next_train, rule d)
qed

lemma failed_predictions:
  "get_predictions fixture_now failed_response ''place-harsq'' (Some ''Red'') None =
     Inr [(''error'', VStr (api_error 503)), (''stop_id'', VStr ''place-harsq'')]"
  by (simp add: get_predictions_def failed_response_def)

theorem wrappers_pass_error_result_witness:
  "get_predictions fixture_now failed_response ''place-harsq'' (Some ''Red'') None =
     Inr [(''error'', VStr (api_error 503)), (''stop_id'', VStr ''place-harsq'')] \<and>
   has_key [(''error'', VStr (api_error 503)), (''stop_id'', VStr ''place-harsq'')] ''error'' \<and>
   get_next_train fixture_now failed_response ''place-harsq'' (Some ''Red'') None =
     Inr [(''error'', VStr (api_error 503)), (''stop_id'', VStr ''place-harsq'')] \<and>
   get_both_directions fixture_now failed_response ''place-harsq'' ''Red'' =
     Inr [(''error'', VStr (api_error 503)), (''stop_id'', VStr ''place-harsq'')]"
proof -
  let ?r = "[(''error'', VStr (api_error 503)), (''stop_id'', VStr ''place-harsq'')]"
  have a: "get_predictions fixture_now failed_response ''place-harsq'' (Some ''Red'') None = Inr ?r"
    by (rule failed_predictions)
  have b: "has_key ?r ''error''" by (simp add: has_key_def)
  show ?thesis
    using wrappers_pass_error_result [of fixture_now failed_response "''place-harsq''"
        "Some ''Red''" None "''Red''"] a b
    by blast
qed

lemma get_next_train_error_iff:
  assumes "get_next_train now resp stop_id route_id dir = Inr d"
  shows "has_key d ''error'' \<longleftrightarrow> status_code resp \<noteq> 200"
proof -
  from assms obtain result where r: "get_predictions now resp stop_id route_id dir = Inr result"
    by (auto simp: get_next_train_def split: sum.splits)
  show ?thesis
  proof (cases "has_key result ''error''")
    case True
    then show ?thesis using assms r get_predictions_error_iff [OF r]
      by (simp add: get_next_train_def)
  next
    case False
    then have "\<not> has_key d ''error''" using assms r
      by (auto simp: get_next_train_def has_key_def Let_def split: sum.splits list.splits)
    then show ?thesis using False get_predictions_error_iff [OF r] by simp
  qed
qed

lemma get_both_directions_error_iff:
  assumes "get_both_directions now resp stop_id rid = Inr d"
  shows "has_key d ''error'' \<longleftrightarrow> status_code resp \<noteq> 200"
proof -
  from assms obtain result where r: "get_predictions now resp stop_id (Some rid) None = Inr result"
    by (auto simp: get_both_directions_def split: sum.splits)
  show ?thesis
  proof (cases "has_key result ''error''")
    case True
    then show ?thesis using assms r get_predictions_error_iff [OF r]
      by (simp add: get_both_directions_def)
  next
    case False
    then have "\<not> has_key d ''error''" using assms r
      by (auto simp: get_both_directions_def has_key_def Let_def split: sum.splits list.splits)
    then show ?thesis using False get_predictions_error_iff [OF r] by simp
  qed
qed

lemma get_routes_error_iff:
  "get_routes resp = Inr d \<Longrightarrow> has_key d ''error'' \<longleftrightarrow> status_code resp \<noteq> 200"
  by (auto simp: get_routes_def has_key_def split: if_splits option.splits)

lemma get_stops_error_iff:
  "get_stops resp route_id = Inr d \<Longrightarrow> has_key d ''error'' \<longleftrightarrow> status_code resp \<noteq> 200"
  by (auto simp: get_stops_def has_key_def split: if_splits option.splits)

lemma search_stops_error_iff:
  "search_stops resp query = Inr d \<Longrightarrow> has_key d ''error'' \<longleftrightarrow> status_code resp \<noteq> 200"
  by (auto simp: search_stops_def has_key_def Let_def split: if_splits option.splits)

lemma get_alerts_error_iff:
  "has_key d ''error'' \<longleftrightarrow> status_code resp \<noteq> 200" if asm: "get_alerts resp route_id = Inr d"
proof (cases "status_code resp = 200")
  case False
  then show ?thesis using asm by (auto simp: get_alerts_def has_key_def)
next
  case True
  then obtain data where data: "body resp = Some data"
    using asm by (cases "body resp") (auto simp: get_alerts_def)
  show ?thesis
  proof (cases "sort_key (\<lambda>a. - severity a) (map normalize_alert data) = []")
    case e: True
    have "get_alerts resp route_id =
        Inr [(''route_filter'', opt_str route_id), (''has_alerts'', VBool False),
             (''alerts'', VAlerts []),
             (''message'', VStr (txt_ok_mark
                 @ (if truthy route_id then txt_this_route else txt_subway_system)
                 @ txt_no_alerts))]"
      unfolding get_alerts_def Let_def using True data e by simp
    with asm True show ?thesis by (auto simp: has_key_def)
  next
    case ne: False
    obtain v1 v2 v3 where "get_alerts resp route_id =
        Inr [(''route_filter'', opt_str route_id), (''has_alerts'', VBool True),
             (''alert_count'', v1), (''alerts'', v2), (''message'', v3)]"
      unfolding get_alerts_def Let_def using True data ne by simp
    with asm True show ?thesis by (auto simp: has_key_def)
  qed
qed

text \<open>
  C5 as the code has it. Each operation tests the status against 200 alone: whenever it
  returns a dict, the dict has the key \<open>error\<close> exactly when the status is not 200, and
  for such a status the operation returns at once the dict holding the error text (with
  the stop id asked for, in \<open>get_predictions\<close> and its two wrappers) and nothing else.
\<close>

theorem error_key_iff_not_200:
  "(\<forall>d. get_routes rresp = Inr d \<longrightarrow> (has_key d ''error'' \<longleftrightarrow> status_code rresp \<noteq> 200)) \<and>
   (\<forall>d. get_stops sresp rid = Inr d \<longrightarrow> (has_key d ''error'' \<longleftrightarrow> status_code sresp \<noteq> 200)) \<and>
   (\<forall>d. search_stops sresp query = Inr d \<longrightarrow> (has_key d ''error'' \<longleftrightarrow> status_code sresp \<noteq> 200)) \<and>
   (\<forall>d. get_predictions now presp stop_id route_id dir = Inr d \<longrightarrow>
        (has_key d ''error'' \<longleftrightarrow> status_code presp \<noteq> 200)) \<and>
   (\<forall>d. get_next_train now presp stop_id route_id dir = Inr d \<longrightarrow>
        (has_key d ''error'' \<longleftrightarrow> status_code presp \<noteq> 200)) \<and>
   (\<forall>d. get_both_directions now presp stop_id rid = Inr d \<longrightarrow>
        (has_key d ''error'' \<longleftrightarrow> status_code presp \<noteq> 200)) \<and>
   (\<forall>d. get_alerts aresp route_id = Inr d \<longrightarrow> (has_key d ''error'' \<longleftrightarrow> status_code aresp \<noteq> 200)) \<and>
   (status_code rresp \<noteq> 200 \<longrightarrow>
      get_routes rresp = Inr [(''error'', VStr (api_error (status_code rresp)))]) \<and>
   (status_code sresp \<noteq> 200 \<longrightarrow>
      get_stops sresp rid = Inr [(''error'', VStr (api_error (status_code sresp)))] \<and>
      search_stops sresp query = Inr [(''error'', VStr (api_error (status_code sresp)))]) \<and>
   (status_code presp \<noteq> 200 \<longrightarrow>
      get_predictions now presp stop_id route_id dir =
        Inr [(''error'', VStr (api_error (status_code presp))), (''stop_id'', VStr stop_id)] \<and>
      get_next_train now presp stop_id route_id dir =
        Inr [(''error'', VStr (api_error (status_code presp))), (''stop_id'', VStr stop_id)] \<and>
      get_both_directions now presp stop_id rid =
        Inr [(''error'', VStr (api_error (status_code presp))), (''stop_id'', VStr stop_id)]) \<and>
   (status_code aresp \<noteq> 200 \<longrightarrow>
      get_alerts aresp route_id = Inr [(''error'', VStr (api_error (status_code aresp)))])"
proof -
  have 1: "\<forall>d. get_routes rresp = Inr d \<longrightarrow> (has_key d ''error'' \<longleftrightarrow> status_code rresp \<noteq> 200)"
    by (simp add: get_routes_error_iff)
  have 2: "\<forall>d. get_stops sresp rid = Inr d \<longrightarrow> (has_key d ''error'' \<longleftrightarrow> status_code sresp \<noteq> 200)"
    by (simp add: get_stops_error_iff)
  have 3: "\<forall>d. search_stops sresp query = Inr d \<longrightarrow> (has_key d ''error'' \<longleftrightarrow> status_code sresp \<noteq> 200)"
    by (simp add: search_stops_error_iff)
  have 4: "\<forall>d. get_predictions now presp stop_id route_id dir = Inr d \<longrightarrow>
        (has_key d ''error'' \<longleftrightarrow> status_code presp \<noteq> 200)"
    by (simp add: get_predictions_error_iff)
  have 5: "\<forall>d. get_next_train now presp stop_id route_id dir = Inr d \<longrightarrow>
        (has_key d ''error'' \<longleftrightarrow> status_code presp \<noteq> 200)"
    by (simp add: get_next_train_error_iff)
  have 6: "\<forall>d. get_both_directions now presp stop_id rid = Inr d \<longrightarrow>
        (has_key d ''error'' \<longleftrightarrow> status_code presp \<noteq> 200)"
    by (simp add: get_both_directions_error_iff)
  have 7: "\<forall>d. get_alerts aresp route_id = Inr d \<longrightarrow> (has_key d ''error'' \<longleftrightarrow> status_code aresp \<noteq> 200)"
    by (simp add: get_alerts_error_iff)
  have 8: "status_code rresp \<noteq> 200 \<longrightarrow>
      get_routes rresp = Inr [(''error'', VStr (api_error (status_code rresp)))]"
    by (simp add: get_routes_def)
  have 9: "status_code sresp \<noteq> 200 \<longrightarrow>
      get_stops sresp rid = Inr [(''error'', VStr (api_error (status_code sresp)))] \<and>
      search_stops sresp query = Inr [(''error'', VStr (api_error (status_code sresp)))]"
    by (simp add: get_stops_def search_stops_def)
  have 10: "status_code presp \<noteq> 200 \<longrightarrow>
      get_predictions now presp stop_id route_id dir =
        Inr [(''error'', VStr (api_error (status_code presp))), (''stop_id'', VStr stop_id)] \<and>
      get_next_train now presp stop_id route_id dir =
        Inr [(''error'', VStr (api_error (status_code presp))), (''stop_id'', VStr stop_id)] \<and>
      get_both_directions now presp stop_id rid =
        Inr [(''error'', VStr (api_error (status_code presp))), (''stop_id'', VStr stop_id)]"
    by (simp add: get_predictions_def get_next_train_def get_both_directions_def has_key_def)
  have 11: "status_code aresp \<noteq> 200 \<longrightarrow>
      get_alerts aresp route_id = Inr [(''error'', VStr (api_error (status_code aresp)))]"
    by (simp add: get_alerts_def)
  show ?thesis
    by (intro conjI) (rule 1, rule 2, rule 3, rule 4, rule 5, rule 6, rule 7, rule 8, rule 9,
        rule 10, rule 11)
qed

text \<open>
  C5 as stated fails for a success status other than 200: a 204 response yields the
  error dict.
\<close>

theorem error_on_2xx_counterexample:
  "200 \<le> status_code no_content_response \<and> status_code no_content_response < 300 \<and>
   get_alerts no_content_response (Some ''Red'') = Inr [(''error'', VStr (api_error 204))] \<and>
   has_key [(''error'', VStr (api_error 204))] ''error''"
  by (simp add: no_content_response_def get_alerts_def has_key_def)

theorem error_key_iff_not_200_witness:
  "status_code no_content_response \<noteq> 200 \<and>
   get_alerts no_content_response (Some ''Red'') = Inr [(''error'', VStr (api_error 204))] \<and>
   get_alerts no_alerts_response (Some ''Green-B'') =
     Inr [(''route_filter'', VStr ''Green-B''), (''has_alerts'', VBool False),
          (''alerts'', VAlerts []),
          (''message'', VStr (txt_ok_mark @ txt_this_route @ txt_no_alerts))] \<and>
   \<not> has_key [(''route_filter'', VStr ''Green-B''), (''has_alerts'', VBool False),
          (''alerts'', VAlerts []),
          (''message'', VStr (txt_ok_mark @ txt_this_route @ txt_no_alerts))] ''error''"
proof -
  have a: "status_code no_content_response \<noteq> 200" by (simp add: no_content_response_def)
  have b: "get_alerts no_alerts_response (Some ''Green-B'') =
     Inr [(''route_filter'', VStr ''Green-B''), (''has_alerts'', VBool False),
          (''alerts'', VAlerts []),
          (''message'', VStr (txt_ok_mark @ txt_this_route @ txt_no_alerts))]"
    by (simp add: get_alerts_def no_alerts_response_def opt_str_def truthy_def)
  have c: "status_code no_alerts_response = 200" by (simp add: no_alerts_response_def)
  from error_key_iff_not_200 [where aresp = no_content_response and route_id = "Some ''Red''"] a
  have d: "get_alerts no_content_response (Some ''Red'') =
      Inr [(''error'', VStr (api_error (status_code no_content_response)))]"
    by blast
  from error_key_iff_not_200 [where aresp = no_alerts_response and route_id = "Some ''Green-B''"] b c
  have e: "\<not> has_key [(''route_filter'', VStr ''Green-B''), (''has_alerts'', VBool False),
          (''alerts'', VAlerts []),
          (''message'', VStr (txt_ok_mark @ txt_this_route @ txt_no_alerts))] ''error''"
    by blast
  from a b d e show ?thesis by (simp add: no_content_response_def)
qed

lemma stops_loop_acc: "stops_loop data seen acc = acc @ stops_loop data seen []"
proof (induction data arbitrary: seen acc)
  case Nil
  show ?case by simp
next
  case (Cons st rest)
  show ?case
    using Cons.IH [of "insert (sr_name st) seen" "acc @ [\<lparr>s_id = sr_id st, s_name = sr_name st\<rparr>]"]
      Cons.IH [of "insert (sr_name st) seen" "[\<lparr>s_id = sr_id st, s_name = sr_name st\<rparr>]"]
      Cons.IH [of seen acc]
    by simp
qed

lemma matches_loop_acc: "matches_loop q data seen acc = acc @ matches_loop q data seen []"
proof (induction data arbitrary: seen acc)
  case Nil
  show ?case by simp
next
  case (Cons st rest)
  show ?case
    using Cons.IH [of "insert (sr_name st) seen" "acc @ [\<lparr>s_id = sr_id st, s_name = sr_name st\<rparr>]"]
      Cons.IH [of "insert (sr_name st) seen" "[\<lparr>s_id = sr_id st, s_name = sr_name st\<rparr>]"]
      Cons.IH [of seen acc]
    by simp
qed

lemma stops_loop_Cons:
  "stops_loop (st # rest) seen [] =
     (if sr_name st \<notin> seen
      then \<lparr>s_id = sr_id st, s_name = sr_name st\<rparr> # stops_loop rest (insert (sr_name st) seen) []
      else stops_loop rest seen [])"
  using stops_loop_acc [of rest "insert (sr_name st) seen" "[\<lparr>s_id = sr_id st, s_name = sr_name st\<rparr>]"]
  by simp

lemma matches_loop_Cons:
  "matches_loop q (st # rest) seen [] =
     (if sr_name st \<notin> seen \<and> sublist q (lower (sr_name st))
      then \<lparr>s_id = sr_id st, s_name = sr_name st\<rparr> # matches_loop q rest (insert (sr_name st) seen) []
      else matches_loop q rest seen [])"
  using matches_loop_acc [of q rest "insert (sr_name st) seen" "[\<lparr>s_id = sr_id st, s_name = sr_name st\<rparr>]"]
  by simp

lemma stops_loop_names:
  "set (map s_name (stops_loop data seen [])) = set (map sr_name data) - seen"
  by (induction data arbitrary: seen) (auto simp: stops_loop_Cons simp del: stops_loop.simps(2))

lemma stops_loop_distinct: "distinct (map s_name (stops_loop data seen []))"
proof (induction data arbitrary: seen)
  case Nil
  show ?case by simp
next
  case (Cons st rest)
  have "sr_name st \<notin> set (map s_name (stops_loop rest (insert (sr_name st) seen) []))"
    unfolding stops_loop_names by simp
  then show ?case using Cons.IH by (simp add: stops_loop_Cons del: stops_loop.simps(2))
qed

lemma stops_loop_first_id:
  "s \<in> set (stops_loop data seen []) \<Longrightarrow>
     map_of (map (\<lambda>r. (sr_name r, sr_id r)) data) (s_name s) = Some (s_id s)"
proof (induction data arbitrary: seen)
  case Nil
  then show ?case by simp
next
  case (Cons st rest)
  show ?case
  proof (cases "s_name s = sr_name st")
    case True
    have "sr_name st \<notin> set (map s_name (stops_loop rest (insert (sr_name st) seen) []))"
      unfolding stops_loop_names by simp
    then have a: "\<forall>x \<in> set (stops_loop rest (insert (sr_name st) seen) []). s_name x \<noteq> sr_name st"
      by (metis imageI list.set_map)
    have "sr_name st \<in> seen \<Longrightarrow> sr_name st \<notin> set (map s_name (stops_loop rest seen []))"
      unfolding stops_loop_names by simp
    then have b: "sr_name st \<in> seen \<Longrightarrow> \<forall>x \<in> set (stops_loop rest seen []). s_name x \<noteq> sr_name st"
      by (metis imageI list.set_map)
    show ?thesis using Cons.prems True a b
      by (auto simp: stops_loop_Cons simp del: stops_loop.simps(2) split: if_splits)
  next
    case False
    then show ?thesis using Cons.prems Cons.IH
      by (auto simp: stops_loop_Cons simp del: stops_loop.simps(2) split: if_splits)
  qed
qed

lemma stops_loop_insert:
  "stops_loop data (insert n seen) [] = filter (\<lambda>s. s_name s \<noteq> n) (stops_loop data seen [])"
proof (induction data arbitrary: seen)
  case Nil
  show ?case by simp
next
  case (Cons st rest)
  show ?case
  proof (cases "sr_name st = n")
    case True
    then show ?thesis
      using Cons.IH [of seen] Cons.IH [of "insert n seen"]
      by (simp add: stops_loop_Cons del: stops_loop.simps(2))
  next
    case False
    then show ?thesis
      using Cons.IH [of seen] Cons.IH [of "insert (sr_name st) seen"]
      by (simp add: stops_loop_Cons insert_commute del: stops_loop.simps(2))
  qed
qed

lemma matches_loop_filter:
  "matches_loop q data seen [] =
     filter (\<lambda>s. sublist q (lower (s_name s))) (stops_loop data seen [])"
proof (induction data arbitrary: seen)
  case Nil
  show ?case by simp
next
  case (Cons st rest)
  show ?case
  proof (cases "sr_name st \<in> seen \<or> sublist q (lower (sr_name st))")
    case True
    then show ?thesis using Cons.IH
      by (auto simp: stops_loop_Cons matches_loop_Cons
            simp del: stops_loop.simps(2) matches_loop.simps(2))
  next
    case False
    have "filter (\<lambda>s. sublist q (lower (s_name s))) (stops_loop rest (insert (sr_name st) seen) [])
          = filter (\<lambda>s. sublist q (lower (s_name s))) (stops_loop rest seen [])"
      unfolding stops_loop_insert filter_filter using False
      by (intro filter_cong) auto
    then show ?thesis using False Cons.IH [of seen]
      by (simp add: stops_loop_Cons matches_loop_Cons
            del: stops_loop.simps(2) matches_loop.simps(2))
  qed
qed

lemma distinct_map_filter_names:
  "distinct (map s_name xs) \<Longrightarrow> distinct (map s_name (filter P xs))"
  by (induction xs) auto

lemma names_filter:
  "set (map s_name (filter (\<lambda>s. P (s_name s)) xs)) = {n \<in> set (map s_name xs). P n}"
  by (induction xs) auto

text \<open>
  C6 as the code has it. The stop list of \<open>get_stops\<close> and the result list of
  \<open>search_stops\<close> have no name twice, and the id kept for a name is that of the first
  upstream stop with the name. \<open>get_stops\<close> keeps every upstream name. \<open>search_stops\<close>
  keeps, of the deduplicated stops, exactly those whose lowercased name contains the
  lowercased query with the whitespace at its ends stripped.
\<close>

theorem stop_lists_deduplicated:
  "(\<forall>d. get_stops resp rid = Inr d \<and> \<not> has_key d ''error'' \<longrightarrow>
      (\<exists>data stops. body resp = Some data \<and>
         map_of d ''stops'' = Some (VStops stops) \<and>
         distinct (map s_name stops) \<and>
         set (map s_name stops) = set (map sr_name data) \<and>
         (\<forall>s \<in> set stops.
            map_of (map (\<lambda>r. (sr_name r, sr_id r)) data) (s_name s) = Some (s_id s)))) \<and>
   (\<forall>d. search_stops resp query = Inr d \<and> \<not> has_key d ''error'' \<longrightarrow>
      (\<exists>data results. body resp = Some data \<and>
         map_of d ''results'' = Some (VStops results) \<and>
         map_of d ''count'' = Some (VInt (int (length results))) \<and>
         distinct (map s_name results) \<and>
         results = filter (\<lambda>s. sublist (strip (lower query)) (lower (s_name s)))
                     (stops_loop data {} []) \<and>
         (\<forall>n. n \<in> set (map s_name results) \<longleftrightarrow>
              n \<in> set (map sr_name data) \<and> sublist (strip (lower query)) (lower n)) \<and>
         (\<forall>s \<in> set results.
            map_of (map (\<lambda>r. (sr_name r, sr_id r)) data) (s_name s) = Some (s_id s))))"
proof (intro conjI allI impI)
  fix d
  assume a: "get_stops resp rid = Inr d \<and> \<not> has_key d ''error''"
  then obtain data where data: "body resp = Some data"
    and d: "d = [(''route'', VStr rid), (''directions'', VDirNames (route_directions rid)),
                 (''stops'', VStops (stops_loop data {} []))]"
    by (auto simp: get_stops_def has_key_def split: if_splits option.splits)
  show "\<exists>data stops. body resp = Some data \<and>
         map_of d ''stops'' = Some (VStops stops) \<and>
         distinct (map s_name stops) \<and>
         set (map s_name stops) = set (map sr_name data) \<and>
         (\<forall>s \<in> set stops.
            map_of (map (\<lambda>r. (sr_name r, sr_id r)) data) (s_name s) = Some (s_id s))"
    using data d stops_loop_distinct [of data "{}"] stops_loop_names [of data "{}"]
      stops_loop_first_id [of _ data "{}"]
    by (intro exI [of _ data] exI [of _ "stops_loop data {} []"]) simp
next
  fix d
  assume a: "search_stops resp query = Inr d \<and> \<not> has_key d ''error''"
  define q where "q = strip (lower query)"
  from a obtain data where data: "body resp = Some data"
    and d: "d = [(''query'', VStr query),
                 (''count'', VInt (int (length (matches_loop q data {} [])))),
                 (''results'', VStops (matches_loop q data {} []))]"
    by (auto simp: search_stops_def has_key_def Let_def q_def split: if_splits option.splits)
  define results where "results = matches_loop q data {} []"
  have r: "results = filter (\<lambda>s. sublist q (lower (s_name s))) (stops_loop data {} [])"
    unfolding results_def by (rule matches_loop_filter)
  have dist: "distinct (map s_name results)"
    unfolding r by (rule distinct_map_filter_names) (rule stops_loop_distinct)
  have names: "\<forall>n. n \<in> set (map s_name results) \<longleftrightarrow>
              n \<in> set (map sr_name data) \<and> sublist q (lower n)"
  proof -
    have "set (map s_name results) =
        {n \<in> set (map s_name (stops_loop data {} [])). sublist q (lower n)}"
      unfolding r by (rule names_filter [of "\<lambda>n. sublist q (lower n)"])
    then show ?thesis unfolding stops_loop_names by simp
  qed
  have ids: "\<forall>s \<in> set results.
            map_of (map (\<lambda>r. (sr_name r, sr_id r)) data) (s_name s) = Some (s_id s)"
    unfolding r using stops_loop_first_id [of _ data "{}"] by auto
  show "\<exists>data results. body resp = Some data \<and>
         map_of d ''results'' = Some (VStops results) \<and>
         map_of d ''count'' = Some (VInt (int (length results))) \<and>
         distinct (map s_name results) \<and>
         results = filter (\<lambda>s. sublist (strip (lower query)) (lower (s_name s)))
                     (stops_loop data {} []) \<and>
         (\<forall>n. n \<in> set (map s_name results) \<longleftrightarrow>
              n \<in> set (map sr_name data) \<and> sublist (strip (lower query)) (lower n)) \<and>
         (\<forall>s \<in> set results.
            map_of (map (\<lambda>r. (sr_name r, sr_id r)) data) (s_name s) = Some (s_id s))"
    using data d r dist names ids unfolding q_def [symmetric] results_def [symmetric]
    by (intro exI [of _ data] exI [of _ results]) simp
qed

lemma park_search:
  "search_stops park_response '' Park'' =
     Inr [(''query'', VStr '' Park''), (''count'', VInt 1),
          (''results'', VStops [\<lparr>s_id = ''place-pktrm'', s_name = ''Park Street''\<rparr>])]"
  by code_simp

lemma park_not_in_name: "\<not> sublist (lower '' Park'') (lower ''Park Street'')"
  by code_simp

lemma park_stripped: "sublist (strip (lower '' Park'')) (lower ''Park Street'')"
  by code_simp

lemma park_stops:
  "get_stops park_response ''Red'' =
     Inr [(''route'', VStr ''Red''),
          (''directions'', VDirNames [(0, ''Ashmont/Braintree''), (1, ''Alewife'')]),
          (''stops'', VStops [\<lparr>s_id = ''place-pktrm'', s_name = ''Park Street''\<rparr>,
                               \<lparr>s_id = ''place-harsq'', s_name = ''Harvard''\<rparr>])]"
  by code_simp

text \<open>
  C6 as stated fails for a query with whitespace at an end: Park Street is returned for
  the query \<open>'' Park''\<close>, and its name does not contain that query in any letter case.
\<close>

theorem search_strips_query_counterexample:
  "search_stops park_response '' Park'' =
     Inr [(''query'', VStr '' Park''), (''count'', VInt 1),
          (''results'', VStops [\<lparr>s_id = ''place-pktrm'', s_name = ''Park Street''\<rparr>])] \<and>
   \<not> sublist (lower '' Park'') (lower ''Park Street'')"
  using park_search park_not_in_name by (rule conjI)

theorem stop_lists_deduplicated_witness:
  "search_stops park_response '' Park'' =
     Inr [(''query'', VStr '' Park''), (''count'', VInt 1),
          (''results'', VStops [\<lparr>s_id = ''place-pktrm'', s_name = ''Park Street''\<rparr>])] \<and>
   \<not> has_key [(''query'', VStr '' Park''), (''count'', VInt 1),
          (''results'', VStops [\<lparr>s_id = ''place-pktrm'', s_name = ''Park Street''\<rparr>])] ''error'' \<and>
   distinct (map s_name [\<lparr>s_id = ''place-pktrm'', s_name = ''Park Street''\<rparr>]) \<and>
   sublist (strip (lower '' Park'')) (lower ''Park Street'') \<and>
   get_stops park_response ''Red'' =
     Inr [(''route'', VStr ''Red''),
          (''directions'', VDirNames [(0, ''Ashmont/Braintree''), (1, ''Alewife'')]),
          (''stops'', VStops [\<lparr>s_id = ''place-pktrm'', s_name = ''Park Street''\<rparr>,
                               \<lparr>s_id = ''place-harsq'', s_name = ''Harvard''\<rparr>])]"
proof -
  let ?d = "[(''query'', VStr '' Park''), (''count'', VInt 1),
          (''results'', VStops [\<lparr>s_id = ''place-pktrm'', s_name = ''Park Street''\<rparr>])]"
  have a: "search_stops park_response '' Park'' = Inr ?d" by (rule park_search)
  have b: "\<not> has_key ?d ''error''" by (simp add: has_key_def)
  note T = stop_lists_deduplicated [of park_response "''Red''" "'' Park''", THEN conjunct2,
      rule_format, OF conjI [OF a b]]
  from T obtain results where r: "map_of ?d ''results'' = Some (VStops results)"
      "distinct (map s_name results)"
    by (elim exE conjE)
  from r(1) have eq: "results = [\<lparr>s_id = ''place-pktrm'', s_name = ''Park Street''\<rparr>]" by simp
  from r(2) have c: "distinct (map s_name [\<lparr>s_id = ''place-pktrm'', s_name = ''Park Street''\<rparr>])"
    unfolding eq .
  show ?thesis
    by (intro conjI) (rule a, rule b, rule c, rule park_stripped, rule park_stops)
qed

lemma has_key_map_of: "has_key d k \<longleftrightarrow> map_of d k \<noteq> None"
  by (simp add: has_key_def map_of_eq_None_iff)

lemma directions_loop_keys:
  "set (map fst (directions_loop ps acc)) = set (map fst acc) \<union> set (map direction ps)"
  by (induction ps arbitrary: acc) (auto simp: has_key_def)

lemma directions_loop_distinct:
  "distinct (map fst acc) \<Longrightarrow> distinct (map fst (directions_loop ps acc))"
  by (induction ps arbitrary: acc) (auto simp: has_key_def)

lemma directions_loop_map_of:
  "map_of (directions_loop ps acc) n =
     (case map_of acc n of
        Some i \<Rightarrow> Some i
      | None \<Rightarrow> map_option (\<lambda>p. \<lparr>di_minutes = minutes p, di_time = time p\<rparr>)
                  (find (\<lambda>p. direction p = n) ps))"
proof (induction ps arbitrary: acc)
  case Nil
  show ?case by (simp split: option.splits)
next
  case (Cons p rest)
  show ?case
  proof (cases "has_key acc (direction p)")
    case True
    then show ?thesis using Cons.IH [of acc]
      by (auto simp: has_key_map_of split: option.splits)
  next
    case False
    then have none: "map_of acc (direction p) = None" by (simp add: has_key_map_of)
    show ?thesis
      using False none Cons.IH [of "acc @ [(direction p, \<lparr>di_minutes = minutes p, di_time = time p\<rparr>)]"]
      by (auto simp: map_add_def split: option.splits)
  qed
qed

lemma find_sorted_least:
  "sorted (map f xs) \<Longrightarrow> find P xs = Some x \<Longrightarrow> y \<in> set xs \<Longrightarrow> P y \<Longrightarrow> f x \<le> f y"
  by (induction xs) (auto split: if_splits)

lemma fixture_both_directions:
  "get_both_directions fixture_now harvard_response ''place-harsq'' ''Red'' =
     Inr [(''stop_id'', VStr ''place-harsq''), (''route'', VStr ''Red''),
          (''has_data'', VBool True),
          (''directions'',
           VDirections [(''Alewife'', \<lparr>di_minutes = 3, di_time = ''04:03:00''\<rparr>),
                        (''Ashmont/Braintree'', \<lparr>di_minutes = 7, di_time = ''04:07:00''\<rparr>)]),
          (''message'',
           VStr (join [CHR 0x0A]
                  [''Red'' @ txt_line,
                   txt_arrow @ ''Alewife: 3'' @ txt_minutes_later,
                   txt_arrow @ ''Ashmont/Braintree: 7'' @ txt_minutes_later]))]"
  by code_simp

lemma direction_name_not_Ashmont: "direction_name route_name dir_id \<noteq> ''Ashmont''"
proof -
  have tbl: "\<And>d. map_of (route_directions route_name) dir_id = Some d \<Longrightarrow> d \<noteq> ''Ashmont''"
    by (auto simp: route_directions_def ROUTE_DIRECTIONS_def split: if_splits)
  have other: "txt_direction @ str_int dir_id \<noteq> ''Ashmont''"
    by (simp add: txt_direction_def)
  show ?thesis
    using tbl other by (auto simp: direction_name_def split: option.splits)
qed

lemma future_predictions_direction:
  "p \<in> set (future_predictions now data) \<Longrightarrow>
     \<exists>route_name dir_id. direction p = direction_name route_name dir_id"
proof -
  assume "p \<in> set (future_predictions now data)"
  from future_predictions_origin [OF this] obtain pred t
    where "p = normalize_prediction now pred t" by blast
  then have "direction p =
      direction_name (case route_data pred of None \<Rightarrow> txt_unknown | Some r \<Rightarrow> r)
        (case direction_id pred of None \<Rightarrow> 0 | Some d \<Rightarrow> d)"
    by (simp add: normalize_prediction_def Let_def)
  then show ?thesis by blast
qed

text \<open>
  C9, the general part, and the fixture as the code answers it. When \<open>get_predictions\<close>
  returns a non-empty list, \<open>get_both_directions\<close> returns \<open>has_data = True\<close> and a
  \<open>directions\<close> dict with one entry for each direction name of the list, holding the
  minutes and time of the first prediction of that direction, whose minutes are the
  least of that direction. For the Red Line fixture the two keys are \<open>Alewife\<close> and
  \<open>Ashmont/Braintree\<close>, with 3 and 7 minutes.
\<close>

theorem both_directions_soonest:
  "(\<forall>result ps.
      get_predictions now resp stop_id (Some rid) None = Inr result \<and>
      \<not> has_key result ''error'' \<and>
      map_of result ''predictions'' = Some (VPredictions ps) \<and> ps \<noteq> [] \<longrightarrow>
      (\<exists>out directions.
         get_both_directions now resp stop_id rid = Inr out \<and>
         map_of out ''has_data'' = Some (VBool True) \<and>
         map_of out ''directions'' = Some (VDirections directions) \<and>
         distinct (map fst directions) \<and>
         set (map fst directions) = set (map direction ps) \<and>
         (\<forall>n. map_of directions n =
                map_option (\<lambda>p. \<lparr>di_minutes = minutes p, di_time = time p\<rparr>)
                  (find (\<lambda>p. direction p = n) ps)) \<and>
         (\<forall>n info. (n, info) \<in> set directions \<longrightarrow>
            (\<forall>p \<in> set ps. direction p = n \<longrightarrow> di_minutes info \<le> minutes p)))) \<and>
   get_both_directions fixture_now harvard_response ''place-harsq'' ''Red'' =
     Inr [(''stop_id'', VStr ''place-harsq''), (''route'', VStr ''Red''),
          (''has_data'', VBool True),
          (''directions'',
           VDirections [(''Alewife'', \<lparr>di_minutes = 3, di_time = ''04:03:00''\<rparr>),
                        (''Ashmont/Braintree'', \<lparr>di_minutes = 7, di_time = ''04:07:00''\<rparr>)]),
          (''message'',
           VStr (join [CHR 0x0A]
                  [''Red'' @ txt_line,
                   txt_arrow @ ''Alewife: 3'' @ txt_minutes_later,
                   txt_arrow @ ''Ashmont/Braintree: 7'' @ txt_minutes_later]))]"
proof (intro conjI allI impI)
  fix result ps
  assume a: "get_predictions now resp stop_id (Some rid) None = Inr result \<and>
      \<not> has_key result ''error'' \<and>
      map_of result ''predictions'' = Some (VPredictions ps) \<and> ps \<noteq> []"
  then have gp: "get_predictions now resp stop_id (Some rid) None = Inr result"
    and ne: "\<not> has_key result ''error''"
    and res: "map_of result ''predictions'' = Some (VPredictions ps)"
    and nonempty: "ps \<noteq> []"
    by simp_all
  from returned_predictions [OF gp ne] res obtain data where
    "ps = take 10 (direction_filter None (sort_key minutes (future_predictions now data)))"
    by auto
  then have sorted: "sorted (map minutes ps)" by (simp only: sorted_returned)
  have get: "getitem_predictions result = Inr ps"
    using res by (simp add: getitem_predictions_def)
  define directions where "directions = directions_loop ps []"
  define out where "out = [(''stop_id'', VStr stop_id), (''route'', VStr rid),
      (''has_data'', VBool True), (''directions'', VDirections directions),
      (''message'', VStr (join [CHR 0x0A] ([rid @ txt_line] @ map direction_line directions)))]"
  obtain p rest where ps: "ps = p # rest" using nonempty by (cases ps) auto
  have run: "get_both_directions now resp stop_id rid = Inr out"
    unfolding get_both_directions_def out_def directions_def
    using gp ne get ps by (simp add: Let_def)
  have keys: "set (map fst directions) = set (map direction ps)"
    unfolding directions_def using directions_loop_keys [of ps "[]"] by simp
  have dist: "distinct (map fst directions)"
    unfolding directions_def by (rule directions_loop_distinct) simp
  have lookup: "\<forall>n. map_of directions n =
                map_option (\<lambda>p. \<lparr>di_minutes = minutes p, di_time = time p\<rparr>)
                  (find (\<lambda>p. direction p = n) ps)"
    unfolding directions_def using directions_loop_map_of [of ps "[]"] by simp
  have least: "\<forall>n info. (n, info) \<in> set directions \<longrightarrow>
            (\<forall>p \<in> set ps. direction p = n \<longrightarrow> di_minutes info \<le> minutes p)"
  proof (intro allI impI ballI)
    fix n info q
    assume mem: "(n, info) \<in> set directions" and q: "q \<in> set ps" "direction q = n"
    from mem dist have "map_of directions n = Some info" by simp
    with lookup obtain p0 where p0: "find (\<lambda>p. direction p = n) ps = Some p0"
        "info = \<lparr>di_minutes = minutes p0, di_time = time p0\<rparr>"
      by auto
    from find_sorted_least [OF sorted p0(1) q(1)] q(2) have "minutes p0 \<le> minutes q" by simp
    then show "di_minutes info \<le> minutes q" using p0(2) by simp
  qed
  show "\<exists>out directions.
         get_both_directions now resp stop_id rid = Inr out \<and>
         map_of out ''has_data'' = Some (VBool True) \<and>
         map_of out ''directions'' = Some (VDirections directions) \<and>
         distinct (map fst directions) \<and>
         set (map fst directions) = set (map direction ps) \<and>
         (\<forall>n. map_of directions n =
                map_option (\<lambda>p. \<lparr>di_minutes = minutes p, di_time = time p\<rparr>)
                  (find (\<lambda>p. direction p = n) ps)) \<and>
         (\<forall>n info. (n, info) \<in> set directions \<longrightarrow>
            (\<forall>p \<in> set ps. direction p = n \<longrightarrow> di_minutes info \<le> minutes p))"
    using run keys dist lookup least
    by (intro exI [of _ out] exI [of _ directions]) (simp add: out_def)
next
  show "get_both_directions fixture_now harvard_response ''place-harsq'' ''Red'' =
     Inr [(''stop_id'', VStr ''place-harsq''), (''route'', VStr ''Red''),
          (''has_data'', VBool True),
          (''directions'',
           VDirections [(''Alewife'', \<lparr>di_minutes = 3, di_time = ''04:03:00''\<rparr>),
                        (''Ashmont/Braintree'', \<lparr>di_minutes = 7, di_time = ''04:07:00''\<rparr>)]),
          (''message'',
           VStr (join [CHR 0x0A]
                  [''Red'' @ txt_line,
                   txt_arrow @ ''Alewife: 3'' @ txt_minutes_later,
                   txt_arrow @ ''Ashmont/Braintree: 7'' @ txt_minutes_later]))]"
    by (rule fixture_both_directions)
qed

text \<open>
  No upstream data makes \<open>Ashmont\<close> a key of the \<open>directions\<close> dict: a direction name is
  an entry of \<open>ROUTE_DIRECTIONS\<close> or the fallback text with the direction id.
\<close>

lemma directions_never_Ashmont:
  assumes "get_both_directions now resp stop_id rid = Inr out"
    and "map_of out ''directions'' = Some (VDirections directions)"
  shows "\<not> has_key directions ''Ashmont''"
proof -
  from assms(1) obtain result where gp: "get_predictions now resp stop_id (Some rid) None = Inr result"
    by (auto simp: get_both_directions_def split: sum.splits)
  show ?thesis
  proof (cases "has_key result ''error''")
    case True
    then have "out = result" using assms(1) gp by (simp add: get_both_directions_def)
    moreover have "result = [(''error'', VStr (api_error (status_code resp))), (''stop_id'', VStr stop_id)]"
      using get_predictions_Inr [OF gp] True by (auto simp: has_key_def)
    ultimately show ?thesis using assms(2) by simp
  next
    case False
    from returned_predictions [OF gp False] obtain data where
      res: "map_of result ''predictions'' =
         Some (VPredictions (take 10 (direction_filter None
                 (sort_key minutes (future_predictions now data)))))"
      by blast
    define ps where "ps = take 10 (direction_filter None (sort_key minutes (future_predictions now data)))"
    have sub: "set ps \<subseteq> set (future_predictions now data)"
      unfolding ps_def by (auto simp: direction_filter_def dest!: in_set_takeD)
    have get: "getitem_predictions result = Inr ps"
      using res by (simp add: getitem_predictions_def ps_def)
    have "directions = directions_loop ps []"
      using assms gp False get
      by (auto simp: get_both_directions_def Let_def split: list.splits)
    then have "set (map fst directions) = set (map direction ps)"
      using directions_loop_keys [of ps "[]"] by simp
    moreover have "\<forall>p \<in> set ps. direction p \<noteq> ''Ashmont''"
      using sub future_predictions_direction direction_name_not_Ashmont by (metis subsetD)
    ultimately show ?thesis by (auto simp: has_key_def)
  qed
qed

text \<open>
  C9 as stated fails on its fixture: for the Red Line the direction with id 0 is named
  \<open>Ashmont/Braintree\<close>, so the dict returned has no key \<open>Ashmont\<close>.
\<close>

theorem both_directions_fixture_counterexample:
  "get_both_directions fixture_now harvard_response ''place-harsq'' ''Red'' =
     Inr [(''stop_id'', VStr ''place-harsq''), (''route'', VStr ''Red''),
          (''has_data'', VBool True),
          (''directions'',
           VDirections [(''Alewife'', \<lparr>di_minutes = 3, di_time = ''04:03:00''\<rparr>),
                        (''Ashmont/Braintree'', \<lparr>di_minutes = 7, di_time = ''04:07:00''\<rparr>)]),
          (''message'',
           VStr (join [CHR 0x0A]
                  [''Red'' @ txt_line,
                   txt_arrow @ ''Alewife: 3'' @ txt_minutes_later,
                   txt_arrow @ ''Ashmont/Braintree: 7'' @ txt_minutes_later]))] \<and>
   \<not> has_key [(''Alewife'', \<lparr>di_minutes = 3, di_time = ''04:03:00''\<rparr>),
              (''Ashmont/Braintree'', \<lparr>di_minutes = 7, di_time = ''04:07:00''\<rparr>)] ''Ashmont''"
proof (rule conjI)
  show "\<not> has_key [(''Alewife'', \<lparr>di_minutes = 3, di_time = ''04:03:00''\<rparr>),
              (''Ashmont/Braintree'', \<lparr>di_minutes = 7, di_time = ''04:07:00''\<rparr>)] ''Ashmont''"
    by (simp add: has_key_def)
qed (rule fixture_both_directions)

theorem both_directions_soonest_witness:
  "get_predictions fixture_now harvard_response ''place-harsq'' (Some ''Red'') None =
     Inr [(''stop_id'', VStr ''place-harsq''), (''route_filter'', VStr ''Red''),
          (''direction_filter'', VNone),
          (''predictions'', VPredictions [alewife_prediction, ashmont_prediction])] \<and>
   [alewife_prediction, ashmont_prediction] \<noteq> [] \<and>
   get_both_directions fixture_now harvard_response ''place-harsq'' ''Red'' =
     Inr [(''stop_id'', VStr ''place-harsq''), (''route'', VStr ''Red''),
          (''has_data'', VBool True),
          (''directions'',
           VDirections [(''Alewife'', \<lparr>di_minutes = 3, di_time = ''04:03:00''\<rparr>),
                        (''Ashmont/Braintree'', \<lparr>di_minutes = 7, di_time = ''04:07:00''\<rparr>)]),
          (''message'',
           VStr (join [CHR 0x0A]
                  [''Red'' @ txt_line,
                   txt_arrow @ ''Alewife: 3'' @ txt_minutes_later,
                   txt_arrow @ ''Ashmont/Braintree: 7'' @ txt_minutes_later]))] \<and>
   distinct [''Alewife'', ''Ashmont/Braintree'']"
proof -
  let ?r = "[(''stop_id'', VStr ''place-harsq''), (''route_filter'', VStr ''Red''),
          (''direction_filter'', VNone),
          (''predictions'', VPredictions [alewife_prediction, ashmont_prediction])]"
  let ?ps = "[alewife_prediction, ashmont_prediction]"
  have a: "get_predictions fixture_now harvard_response ''place-harsq'' (Some ''Red'') None = Inr ?r"
    by (rule fixture_predictions)
  have b: "\<not> has_key ?r ''error''" by (simp add: has_key_def)
  have c: "map_of ?r ''predictions'' = Some (VPredictions ?ps)" by simp
  have d: "?ps \<noteq> []" by simp
  note T = both_directions_soonest [of fixture_now harvard_response "''place-harsq''" "''Red''",
      THEN conjunct1, rule_format, OF conjI [OF a conjI [OF b conjI [OF c d]]]]
  note F = both_directions_soonest [of fixture_now harvard_response "''place-harsq''" "''Red''",
      THEN conjunct2]
  from T obtain out directions where
    o: "get_both_directions fixture_now harvard_response ''place-harsq'' ''Red'' = Inr out"
       "map_of out ''directions'' = Some (VDirections directions)"
       "distinct (map fst directions)"
    by (elim exE conjE)
  from o(1) have "Inr out = get_both_directions fixture_now harvard_response ''place-harsq'' ''Red''"
    by (rule sym)
  then have "map_of out ''directions'' =
      Some (VDirections [(''Alewife'', \<lparr>di_minutes = 3, di_time = ''04:03:00''\<rparr>),
                        (''Ashmont/Braintree'', \<lparr>di_minutes = 7, di_time = ''04:07:00''\<rparr>)])"
    unfolding F by simp
  with o(2) have "directions = [(''Alewife'', \<lparr>di_minutes = 3, di_time = ''04:03:00''\<rparr>),
                        (''Ashmont/Braintree'', \<lparr>di_minutes = 7, di_time = ''04:07:00''\<rparr>)]"
    by simp
  with o(3) have e: "distinct [''Alewife'', ''Ashmont/Braintree'']" by simp
  show ?thesis by (intro conjI) (rule a, rule d, rule F, rule e)
qed

section \<open>Conversation: properties\<close>

text \<open>
  Dispatch itself never raises: \<open>_call_tool\<close> answers an unknown name with an error
  payload holding the name, and an exception of the tool with an error payload holding
  its text. The loop over the tool calls ends normally when every argument text is JSON.
\<close>

lemma call_tool_tools: "tools s = tools s' \<Longrightarrow> call_tool s name args = call_tool s' name args"
  by (simp add: call_tool_def)

lemma call_tool_printed: "call_tool (s\<lparr>printed := p\<rparr>) name args = call_tool s name args"
  by (simp add: call_tool_def)

lemma call_tool_messages: "call_tool (s\<lparr>messages := m\<rparr>) name args = call_tool s name args"
  by (simp add: call_tool_def)

lemma call_tool_unknown:
  "tools s name = None \<Longrightarrow>
     call_tool s name args = Dumps True (JObj [(''error'', JStr (txt_unknown_tool @ name))])"
  by (simp add: call_tool_def)

lemma call_tool_raises:
  "tools s name = Some func \<Longrightarrow> func args = Inl e \<Longrightarrow>
     call_tool s name args = Dumps True (JObj [(''error'', JStr e)])"
  by (simp add: call_tool_def)

lemma call_tool_returns:
  "tools s name = Some func \<Longrightarrow> func args = Inr result \<Longrightarrow>
     call_tool s name args = Dumps False result"
  by (simp add: call_tool_def)

lemma tool_calls_loop_parsed:
  assumes "\<forall>tc \<in> set tcs. tc_arguments tc \<noteq> None"
  shows "tool_calls_loop s tcs =
     Inr (s\<lparr>printed := printed s @ map (\<lambda>tc. (tc_name tc, the (tc_arguments tc))) tcs,
            messages := messages s @
              map (\<lambda>tc. ToolMsg (tc_id tc) (call_tool s (tc_name tc) (the (tc_arguments tc)))) tcs\<rparr>)"
  using assms
proof (induction tcs arbitrary: s)
  case Nil
  show ?case by simp
next
  case (Cons tc rest)
  then obtain a where a: "tc_arguments tc = Some a" by auto
  let ?s1 = "s\<lparr>printed := printed s @ [(tc_name tc, a)]\<rparr>"
  let ?s2 = "?s1\<lparr>messages := messages ?s1 @ [ToolMsg (tc_id tc) (call_tool ?s1 (tc_name tc) a)]\<rparr>"
  have "tool_calls_loop s (tc # rest) = tool_calls_loop ?s2 rest"
    using a by (simp add: Let_def)
  also have "\<dots> = Inr (?s2\<lparr>printed := printed ?s2 @ map (\<lambda>tc. (tc_name tc, the (tc_arguments tc))) rest,
            messages := messages ?s2 @
              map (\<lambda>tc. ToolMsg (tc_id tc) (call_tool ?s2 (tc_name tc) (the (tc_arguments tc)))) rest\<rparr>)"
    using Cons.prems by (intro Cons.IH) simp
  finally show ?case using a by (simp add: call_tool_printed call_tool_messages)
qed

lemma tool_calls_loop_malformed:
  "tc_arguments tc = None \<Longrightarrow> tool_calls_loop s (tc # rest) = Inl (JSONDecodeError, s)"
  by simp



lemma chat_loop_raise:
  "tool_calls am \<noteq> [] \<Longrightarrow>
   tool_calls_loop (s\<lparr>messages := messages s @ [AssistantCalls am]\<rparr>) (tool_calls am) = Inl e \<Longrightarrow>
   chat_loop llm s am = Some (Inl e)"
  by (subst chat_loop.simps) simp

text \<open>
  C3, where the code leaves it. When the argument text of a tool call is not JSON,
  \<open>json.loads\<close> raises before \<open>_call_tool\<close> is entered: \<open>chat\<close> ends with
  \<open>JSONDecodeError\<close>, the assistant message already appended and no tool message after
  it.
\<close>

theorem chat_raises_on_malformed_arguments:
  "chat broken_llm ''2024-01-01T09:00:05'' ''Next train at Harvard?'' demo_agent =
     Some (Inl (JSONDecodeError,
       demo_agent\<lparr>messages :=
         [SystemMsg ''You are Genos.'', UserMsg ''Next train at Harvard?'',
          AssistantCalls \<lparr>content = None, tool_calls = [broken_call]\<rparr>]\<rparr>))"
proof -
  let ?s0 = "demo_agent\<lparr>messages := messages demo_agent @ [UserMsg ''Next train at Harvard?'']\<rparr>"
  let ?am = "\<lparr>content = None, tool_calls = [broken_call]\<rparr>"
  have m: "messages demo_agent = [SystemMsg ''You are Genos.'']"
    by (simp add: demo_agent_def register_tool_def new_agent_def)
  have "tool_calls_loop (?s0\<lparr>messages := messages ?s0 @ [AssistantCalls ?am]\<rparr>) (tool_calls ?am)
        = Inl (JSONDecodeError, ?s0\<lparr>messages := messages ?s0 @ [AssistantCalls ?am]\<rparr>)"
    by (simp add: broken_call_def)
  then have "chat_loop broken_llm ?s0 ?am =
      Some (Inl (JSONDecodeError, ?s0\<lparr>messages := messages ?s0 @ [AssistantCalls ?am]\<rparr>))"
    by (intro chat_loop_raise) simp_all
  then show ?thesis
    by (simp add: chat_def Let_def broken_llm_def m)
qed








end
